theory Spec2Isabelle
  imports Main "HOL-Library.Word" "HOL-Library.AList" "HOL-Library.List_Lexorder"
    "HOL-Library.Char_ord"
begin

unbundle bit_operations_syntax

section \<open>The pipeline manager (src/src/PipelineManager.cpp)\<close>

subsection \<open>Data\<close>

text \<open>
  Modelled from the spec: the enum \<open>TCAM_PIPELINE_STATUS\<close> is declared in a header
  that is not part of the sources at hand. The pipeline state is one of undefined,
  stopped, paused, playing and error; the names are the ones PipelineManager.cpp uses.
\<close>

datatype TCAM_PIPELINE_STATUS =
    TCAM_PIPELINE_UNDEFINED
  | TCAM_PIPELINE_STOPPED
  | TCAM_PIPELINE_PAUSED
  | TCAM_PIPELINE_PLAYING
  | TCAM_PIPELINE_ERROR

text \<open>
  Modelled from the spec: the class \<open>VideoFormat\<close> is declared in a header that is not
  part of the sources at hand. A pixel format is an opaque 32-bit encoding id, a width,
  a height and a frame rate, and equality is structural. The manager reads and replaces
  the fourcc and compares whole formats. Of a \<open>VideoFormatDescription\<close> it reads the
  fourcc only.
\<close>

record VideoFormat =
  fourcc :: "32 word"
  frame_width :: nat
  frame_height :: nat
  frame_rate :: nat

definition set_fourcc :: "32 word \<Rightarrow> VideoFormat \<Rightarrow> VideoFormat" where
  "set_fourcc cc f = f\<lparr>fourcc := cc\<rparr>"

record VideoFormatDescription =
  get_fourcc :: "32 word"

text \<open>
  Modelled from the spec: the filter interface is declared in a header that is not part
  of the sources at hand. A stage descriptor is a name, a kind (conversion or
  interpretation), a set of input encodings and a set of output encodings; the code
  keeps the two sets in vectors. A filter is an external collaborator: what it answers
  to \<open>setVideoFormat\<close> and \<open>setStatus\<close> is a parameter of the model.
\<close>

datatype FILTER_TYPE = FILTER_TYPE_CONVERSION | FILTER_TYPE_INTERPRET

record FilterInterface =
  filter_name :: string
  filter_type :: FILTER_TYPE
  input_fourcc :: "32 word list"
  output_fourcc :: "32 word list"
  filter_setVideoFormat :: "VideoFormat \<Rightarrow> VideoFormat \<Rightarrow> bool"
  filter_setStatus :: "TCAM_PIPELINE_STATUS \<Rightarrow> bool"

text \<open>
  Source and sink are external collaborators too: each is what it answers to the calls
  the manager makes on it.
\<close>

record ImageSource =
  source_set_status :: "TCAM_PIPELINE_STATUS \<Rightarrow> bool"
  source_setVideoFormat :: "VideoFormat \<Rightarrow> bool"
  source_set_buffer_collection :: bool

record SinkInterface =
  sink_set_status :: "TCAM_PIPELINE_STATUS \<Rightarrow> bool"
  sink_setVideoFormat :: "VideoFormat \<Rightarrow> bool"

text \<open>
  Every call the manager makes on a collaborator, on the condition variable or on the
  worker thread is appended to a log, so that "no side effect" is a statement about the
  log. Buffers are of an arbitrary type \<open>'b\<close> (the code passes shared pointers).
\<close>

datatype 'b call =
    SourceSetStatus TCAM_PIPELINE_STATUS
  | SinkSetStatus TCAM_PIPELINE_STATUS
  | PropertyFilterSetStatus TCAM_PIPELINE_STATUS
  | FilterSetStatus string TCAM_PIPELINE_STATUS
  | FilterSetVideoFormat string VideoFormat VideoFormat
  | SourceSetVideoFormat VideoFormat
  | SinkSetVideoFormat VideoFormat
  | SinkGetBufferCollection
  | SourceSetBufferCollection
  | PropertyFilterSetVideoFormat VideoFormat VideoFormat
  | NotifyAll
  | ThreadStart
  | ThreadJoin
  | PropertyFilterApply 'b
  | SinkPushImage 'b

text \<open>
  The fields of the class that the modelled member functions read or write.
  \<open>m_pipeline_thread\<close> is the thread object's \<open>joinable()\<close>: true from the moment a
  thread is started until it is joined. \<open>property_filter\<close> is created together with
  \<open>source\<close> in \<open>setSource\<close> and has no field of its own: \<open>create_pipeline\<close>,
  \<open>start_playing\<close> and \<open>stop_playing\<close> reach it only after a successful check of
  \<open>source\<close>; \<open>run_pipeline\<close> uses it with no such check, in the thread that
  \<open>start_playing\<close> starts.
\<close>

record 'b PipelineManager =
  status :: TCAM_PIPELINE_STATUS
  source :: "ImageSource option"
  sink :: "SinkInterface option"
  available_input_formats :: "VideoFormatDescription list"
  available_filter :: "FilterInterface list"
  filter_pipeline :: "FilterInterface list"
  input_format :: VideoFormat
  output_format :: VideoFormat
  m_entry_queue :: "'b list"
  m_pipeline_thread :: bool
  calls :: "'b call list"

definition log_call :: "'b call \<Rightarrow> 'b PipelineManager \<Rightarrow> 'b PipelineManager" where
  "log_call c m = m\<lparr>calls := calls m @ [c]\<rparr>"

subsection \<open>Building the filter chain\<close>

definition isFilterApplicable :: "32 word \<Rightarrow> 32 word list \<Rightarrow> bool" where
  "isFilterApplicable cc vec = (if List.find (\<lambda>x. x = cc) vec = None then False else True)"

definition create_input_format :: "32 word \<Rightarrow> 'b PipelineManager \<Rightarrow> 'b PipelineManager" where
  "create_input_format cc m = m\<lparr>input_format := set_fourcc cc (output_format m)\<rparr>"

definition getDeviceFourcc :: "'b PipelineManager \<Rightarrow> 32 word list" where
  "getDeviceFourcc m = map get_fourcc (available_input_formats m)"

text \<open>The body of the loop over \<open>available_filter\<close> in \<open>create_conversion_pipeline\<close>.\<close>

definition conversion_step ::
  "32 word list \<Rightarrow> FilterInterface \<Rightarrow> 'b PipelineManager \<Rightarrow> 'b PipelineManager" where
  "conversion_step device_fourcc f m =
     (if filter_type f = FILTER_TYPE_CONVERSION then
        (if isFilterApplicable (fourcc (output_format m)) (output_fourcc f) then
           (let found = List.find (\<lambda>cc. isFilterApplicable cc (input_fourcc f)) device_fourcc;
                filter_valid = (found \<noteq> None);
                fourcc_to_use = (case found of None \<Rightarrow> 0 | Some cc \<Rightarrow> cc);
                m1 = create_input_format fourcc_to_use m
            in if filter_valid then
                 (let m2 = log_call (FilterSetVideoFormat (filter_name f)
                                        (input_format m1) (output_format m1)) m1
                  in if filter_setVideoFormat f (input_format m1) (output_format m1)
                     then m2\<lparr>filter_pipeline := filter_pipeline m2 @ [f]\<rparr>
                     else m2)
               else m1)
         else m)
      else m)"

definition create_conversion_pipeline ::
  "'b PipelineManager \<Rightarrow> bool \<times> 'b PipelineManager" where
  "create_conversion_pipeline m =
     (if source m = None \<or> sink m = None then (False, m)
      else
        (let device_fourcc = getDeviceFourcc m;
             m1 = create_input_format (fourcc (output_format m)) m
         in (True, foldl (\<lambda>st f. conversion_step device_fourcc f st) m1 (available_filter m1))))"

text \<open>The body of the loop over \<open>available_filter\<close> in \<open>add_interpretation_filter\<close>.\<close>

definition interpretation_applies :: "'b PipelineManager \<Rightarrow> FilterInterface \<Rightarrow> bool" where
  "interpretation_applies m f =
     (let all_formats =
            (if length (input_fourcc f) = 1
             then (if input_fourcc f ! 0 = 0 then True else False)
             else False)
      in all_formats \<or> isFilterApplicable (fourcc (input_format m)) (input_fourcc f))"

definition interpretation_step ::
  "FilterInterface \<Rightarrow> 'b PipelineManager \<Rightarrow> 'b PipelineManager" where
  "interpretation_step f m =
     (if filter_type f = FILTER_TYPE_INTERPRET then
        (let m1 = log_call (FilterSetVideoFormat (filter_name f)
                              (input_format m) (input_format m)) m
         in if interpretation_applies m f
            then m1\<lparr>filter_pipeline := f # filter_pipeline m1\<rparr>
            else m1)
      else m)"

definition add_interpretation_filter ::
  "'b PipelineManager \<Rightarrow> bool \<times> 'b PipelineManager" where
  "add_interpretation_filter m =
     (True, foldl (\<lambda>st f. interpretation_step f st) m (available_filter m))"

definition create_pipeline :: "'b PipelineManager \<Rightarrow> bool \<times> 'b PipelineManager" where
  "create_pipeline m =
     (case (source m, sink m) of
        (Some src, Some snk) \<Rightarrow>
          (let m0 = m\<lparr>filter_pipeline := []\<rparr> in
           case create_conversion_pipeline m0 of
             (False, m1) \<Rightarrow> (False, m1)
           | (True, m1) \<Rightarrow>
               (let m2 = log_call (SourceSetVideoFormat (input_format m1)) m1 in
                if \<not> source_setVideoFormat src (input_format m1) then (False, m2)
                else
                  (let m3 = log_call (SinkSetVideoFormat (output_format m2)) m2 in
                   if \<not> sink_setVideoFormat snk (output_format m2) then (False, m3)
                   else
                     (let m4 = log_call SourceSetBufferCollection
                                 (log_call SinkGetBufferCollection m3) in
                      if \<not> source_set_buffer_collection src then (False, m4)
                      else (True, log_call (PropertyFilterSetVideoFormat
                                              (output_format m4) (output_format m4)) m4)))))
      | _ \<Rightarrow> (False, m))"

subsection \<open>Starting and stopping\<close>

definition set_source_status ::
  "TCAM_PIPELINE_STATUS \<Rightarrow> 'b PipelineManager \<Rightarrow> bool \<times> 'b PipelineManager" where
  "set_source_status s m =
     (case source m of
        None \<Rightarrow> (False, m)
      | Some src \<Rightarrow> (source_set_status src s, log_call (SourceSetStatus s) m))"

definition set_sink_status ::
  "TCAM_PIPELINE_STATUS \<Rightarrow> 'b PipelineManager \<Rightarrow> bool \<times> 'b PipelineManager" where
  "set_sink_status s m =
     (case sink m of
        None \<Rightarrow> (False, m)
      | Some snk \<Rightarrow> (sink_set_status snk s, log_call (SinkSetStatus s) m))"

text \<open>
  The loop of \<open>stop_playing\<close> over the chain: it stops at the first filter that
  refuses, and says whether all accepted.
\<close>

fun stop_filters ::
  "FilterInterface list \<Rightarrow> 'b PipelineManager \<Rightarrow> bool \<times> 'b PipelineManager" where
  "stop_filters [] m = (True, m)"
| "stop_filters (f # fs) m =
     (let m1 = log_call (FilterSetStatus (filter_name f) TCAM_PIPELINE_STOPPED) m
      in if \<not> filter_setStatus f TCAM_PIPELINE_STOPPED then (False, m1)
         else stop_filters fs m1)"

text \<open>
  \<open>join()\<close> returns once \<open>run_pipeline\<close> has returned, which it does when it sees a
  status other than playing; \<open>stop_playing\<close> has set the status to stopped before.
\<close>

definition stop_playing :: "'b PipelineManager \<Rightarrow> bool \<times> 'b PipelineManager" where
  "stop_playing m =
     (let m1 = log_call NotifyAll (m\<lparr>status := TCAM_PIPELINE_STOPPED\<rparr>) in
      case set_source_status TCAM_PIPELINE_STOPPED m1 of
        (False, m2) \<Rightarrow> (False, m2)
      | (True, m2) \<Rightarrow>
          (case stop_filters (filter_pipeline m2) m2 of
             (False, m3) \<Rightarrow> (False, m3)
           | (True, m3) \<Rightarrow>
               (let m4 = snd (set_sink_status TCAM_PIPELINE_STOPPED m3);
                    m5 = log_call (PropertyFilterSetStatus TCAM_PIPELINE_STOPPED) m4
                in if m_pipeline_thread m5
                   then (True, log_call ThreadJoin (m5\<lparr>m_pipeline_thread := False\<rparr>))
                   else (True, m5))))"

text \<open>
  Assigning a new \<open>std::thread\<close> to a thread object that is still joinable calls
  \<open>std::terminate\<close>: that outcome is \<open>None\<close>.
\<close>

definition start_playing :: "'b PipelineManager \<Rightarrow> (bool \<times> 'b PipelineManager) option" where
  "start_playing m =
     (case set_sink_status TCAM_PIPELINE_PLAYING m of
        (False, m1) \<Rightarrow> Some (False, snd (stop_playing m1))
      | (True, m1) \<Rightarrow>
          (case set_source_status TCAM_PIPELINE_PLAYING m1 of
             (False, m2) \<Rightarrow> Some (False, snd (stop_playing m2))
           | (True, m2) \<Rightarrow>
               (let m3 = (log_call (PropertyFilterSetStatus TCAM_PIPELINE_PLAYING) m2)
                           \<lparr>status := TCAM_PIPELINE_PLAYING\<rparr>
                in if m_pipeline_thread m3 then None
                   else Some (True, log_call ThreadStart (m3\<lparr>m_pipeline_thread := True\<rparr>)))))"

definition set_status ::
  "TCAM_PIPELINE_STATUS \<Rightarrow> 'b PipelineManager \<Rightarrow> (bool \<times> 'b PipelineManager) option" where
  "set_status s m =
     (if status m = s then Some (True, m)
      else
        (let m1 = m\<lparr>status := s\<rparr> in
         if status m1 = TCAM_PIPELINE_PLAYING then
           (case create_pipeline m1 of
              (True, m2) \<Rightarrow>
                (case start_playing m2 of
                   None \<Rightarrow> None
                 | Some (r, m3) \<Rightarrow> Some (True, m3))
            | (False, m2) \<Rightarrow> Some (False, m2\<lparr>status := TCAM_PIPELINE_ERROR\<rparr>))
         else if status m1 = TCAM_PIPELINE_STOPPED then
           Some (True, snd (stop_playing m1))
         else Some (True, m1)))"

text \<open>
  \<open>setSink\<close> dereferences the sink it is given, so it is never called with a null
  pointer.
\<close>

definition setSink :: "SinkInterface \<Rightarrow> 'b PipelineManager \<Rightarrow> bool \<times> 'b PipelineManager" where
  "setSink s m =
     (if status m = TCAM_PIPELINE_PLAYING \<or> status m = TCAM_PIPELINE_PAUSED then (False, m)
      else (True, m\<lparr>sink := Some s\<rparr>))"

subsection \<open>Buffer dispatch\<close>

definition push_image :: "'b \<Rightarrow> 'b PipelineManager \<Rightarrow> 'b PipelineManager" where
  "push_image buffer m =
     (if status m = TCAM_PIPELINE_STOPPED then m
      else log_call NotifyAll (m\<lparr>m_entry_queue := m_entry_queue m @ [buffer]\<rparr>))"

text \<open>
  One turn of the \<open>while (true)\<close> loop of \<open>run_pipeline\<close>, from taking the lock to
  handing the buffer to the sink. With the queue empty and the status playing the thread
  stays in \<open>wait_for\<close> (\<open>Waiting\<close>); with another status it returns (\<open>Returned\<close>);
  otherwise it takes the front buffer, applies the property filter and pushes the buffer
  to the sink if there is one (\<open>Processed\<close>).
\<close>

datatype worker_turn = Waiting | Returned | Processed

definition run_pipeline_turn :: "'b PipelineManager \<Rightarrow> worker_turn \<times> 'b PipelineManager" where
  "run_pipeline_turn m =
     (if status m = TCAM_PIPELINE_PLAYING \<and> m_entry_queue m = [] then (Waiting, m)
      else if status m \<noteq> TCAM_PIPELINE_PLAYING then (Returned, m)
      else
        (case m_entry_queue m of
           [] \<Rightarrow> (Waiting, m)
         | current_buffer # rest \<Rightarrow>
             (let m1 = log_call (PropertyFilterApply current_buffer)
                         (m\<lparr>m_entry_queue := rest\<rparr>)
              in (Processed,
                  if sink m1 \<noteq> None then log_call (SinkPushImage current_buffer) m1
                  else m1))))"

text \<open>
  The producer and the worker take the same mutex around every access to the queue, so a
  run of the two threads is a sequence of pushes and worker turns.
\<close>

datatype 'b action = Push 'b | Turn

fun perform :: "'b action \<Rightarrow> 'b PipelineManager \<Rightarrow> 'b PipelineManager" where
  "perform (Push b) m = push_image b m"
| "perform Turn m = snd (run_pipeline_turn m)"

definition run_actions :: "'b action list \<Rightarrow> 'b PipelineManager \<Rightarrow> 'b PipelineManager" where
  "run_actions acts m = foldl (\<lambda>st a. perform a st) m acts"

fun pushed :: "'b action list \<Rightarrow> 'b list" where
  "pushed [] = []"
| "pushed (Push b # acts) = b # pushed acts"
| "pushed (Turn # acts) = pushed acts"

fun delivered :: "'b call list \<Rightarrow> 'b list" where
  "delivered [] = []"
| "delivered (SinkPushImage b # cs) = b # delivered cs"
| "delivered (c # cs) = delivered cs"

section \<open>Format negotiation (src/src/gstreamer-1.0/tcamgstbase.cpp)\<close>

subsection \<open>Pixel format codes\<close>

definition GST_MAKE_FOURCC :: "char \<Rightarrow> char \<Rightarrow> char \<Rightarrow> char \<Rightarrow> 32 word" where
  "GST_MAKE_FOURCC a b c d =
     of_char a OR push_bit 8 (of_char b) OR push_bit 16 (of_char c) OR push_bit 24 (of_char d)"

text \<open>
  The header that defines the \<open>FOURCC_*\<close> constants is not part of the sources at hand.
  The functions below take the table of constants as their first argument: \<open>F ''Y800''\<close>
  stands for \<open>FOURCC_Y800\<close>.
\<close>

type_synonym fourcc_table = "string \<Rightarrow> 32 word"

definition tcam_gst_is_fourcc_bayer :: "fourcc_table \<Rightarrow> 32 word \<Rightarrow> bool" where
  "tcam_gst_is_fourcc_bayer F cc =
     (cc = F ''GBRG8'' \<or> cc = F ''GRBG8'' \<or> cc = F ''RGGB8'' \<or> cc = F ''BGGR8'')"

definition tcam_gst_is_bayer10_fourcc :: "fourcc_table \<Rightarrow> 32 word \<Rightarrow> bool" where
  "tcam_gst_is_bayer10_fourcc F cc =
     (cc = F ''GBRG10'' \<or> cc = F ''GRBG10'' \<or> cc = F ''RGGB10'' \<or> cc = F ''BGGR10'')"

definition tcam_gst_is_bayer10_packed_fourcc :: "fourcc_table \<Rightarrow> 32 word \<Rightarrow> bool" where
  "tcam_gst_is_bayer10_packed_fourcc F cc =
     (cc = F ''GBRG10_SPACKED'' \<or> cc = F ''GRBG10_SPACKED''
      \<or> cc = F ''RGGB10_SPACKED'' \<or> cc = F ''BGGR10_SPACKED''
      \<or> cc = F ''GBRG10_MIPI_PACKED'' \<or> cc = F ''GRBG10_MIPI_PACKED''
      \<or> cc = F ''RGGB10_MIPI_PACKED'' \<or> cc = F ''BGGR10_MIPI_PACKED'')"

definition tcam_gst_is_bayer12_fourcc :: "fourcc_table \<Rightarrow> 32 word \<Rightarrow> bool" where
  "tcam_gst_is_bayer12_fourcc F cc =
     (cc = F ''GBRG12'' \<or> cc = F ''GRBG12'' \<or> cc = F ''RGGB12'' \<or> cc = F ''BGGR12'')"

definition tcam_gst_is_bayer12_packed_fourcc :: "fourcc_table \<Rightarrow> 32 word \<Rightarrow> bool" where
  "tcam_gst_is_bayer12_packed_fourcc F cc =
     (cc = F ''GBRG12_MIPI_PACKED'' \<or> cc = F ''GRBG12_MIPI_PACKED''
      \<or> cc = F ''RGGB12_MIPI_PACKED'' \<or> cc = F ''BGGR12_MIPI_PACKED''
      \<or> cc = F ''GBRG12_SPACKED'' \<or> cc = F ''GRBG12_SPACKED''
      \<or> cc = F ''RGGB12_SPACKED'' \<or> cc = F ''BGGR12_SPACKED''
      \<or> cc = F ''GBRG12_PACKED'' \<or> cc = F ''GRBG12_PACKED''
      \<or> cc = F ''RGGB12_PACKED'' \<or> cc = F ''BGGR12_PACKED'')"

definition tcam_gst_is_bayer16_fourcc :: "fourcc_table \<Rightarrow> 32 word \<Rightarrow> bool" where
  "tcam_gst_is_bayer16_fourcc F cc =
     (cc = F ''GBRG16'' \<or> cc = F ''GRBG16'' \<or> cc = F ''RGGB16'' \<or> cc = F ''BGGR16'')"

definition tcam_gst_is_fourcc_yuv :: "fourcc_table \<Rightarrow> 32 word \<Rightarrow> bool" where
  "tcam_gst_is_fourcc_yuv F cc =
     (cc = F ''YUY2'' \<or> cc = F ''UYVY'' \<or> cc = F ''IYU1'' \<or> cc = F ''IYU2''
      \<or> cc = F ''Y411'' \<or> cc = F ''NV12'')"

definition tcam_gst_is_fourcc_rgb :: "fourcc_table \<Rightarrow> 32 word \<Rightarrow> bool" where
  "tcam_gst_is_fourcc_rgb F cc =
     (cc = GST_MAKE_FOURCC (CHR ''R'') (CHR ''G'') (CHR ''B'') (CHR ''x'')
      \<or> cc = GST_MAKE_FOURCC (CHR ''x'') (CHR ''R'') (CHR ''G'') (CHR ''B'')
      \<or> cc = GST_MAKE_FOURCC (CHR ''B'') (CHR ''G'') (CHR ''R'') (CHR ''x'')
      \<or> cc = GST_MAKE_FOURCC (CHR ''x'') (CHR ''B'') (CHR ''G'') (CHR ''R'')
      \<or> cc = GST_MAKE_FOURCC (CHR ''R'') (CHR ''G'') (CHR ''B'') (CHR ''A'')
      \<or> cc = GST_MAKE_FOURCC (CHR ''A'') (CHR ''R'') (CHR ''G'') (CHR ''B'')
      \<or> cc = GST_MAKE_FOURCC (CHR ''B'') (CHR ''G'') (CHR ''R'') (CHR ''A'')
      \<or> cc = GST_MAKE_FOURCC (CHR ''A'') (CHR ''B'') (CHR ''G'') (CHR ''R'')
      \<or> cc = F ''BGR24'' \<or> cc = F ''BGRA32'' \<or> cc = F ''BGRA64'')"

definition tcam_gst_is_bayerpwl_fourcc :: "fourcc_table \<Rightarrow> 32 word \<Rightarrow> bool" where
  "tcam_gst_is_bayerpwl_fourcc F cc =
     (cc = F ''PWL_RG12_MIPI'' \<or> cc = F ''PWL_RG12'' \<or> cc = F ''PWL_RG16H12'')"

definition tcam_gst_is_polarized_mono :: "fourcc_table \<Rightarrow> 32 word \<Rightarrow> bool" where
  "tcam_gst_is_polarized_mono F cc =
     (cc = F ''POLARIZATION_MONO8_90_45_135_0''
      \<or> cc = F ''POLARIZATION_MONO16_90_45_135_0''
      \<or> cc = F ''POLARIZATION_MONO12_SPACKED_90_45_135_0''
      \<or> cc = F ''POLARIZATION_MONO12_PACKED_90_45_135_0''
      \<or> cc = F ''POLARIZATION_ADI_PLANAR_MONO8''
      \<or> cc = F ''POLARIZATION_ADI_PLANAR_MONO16''
      \<or> cc = F ''POLARIZATION_ADI_MONO8'' \<or> cc = F ''POLARIZATION_ADI_MONO16''
      \<or> cc = F ''POLARIZATION_PACKED8'' \<or> cc = F ''POLARIZATION_PACKED16'')"

definition tcam_gst_is_polarized_bayer :: "fourcc_table \<Rightarrow> 32 word \<Rightarrow> bool" where
  "tcam_gst_is_polarized_bayer F cc =
     (cc = F ''POLARIZATION_BG8_90_45_135_0''
      \<or> cc = F ''POLARIZATION_BG16_90_45_135_0''
      \<or> cc = F ''POLARIZATION_BG12_SPACKED_90_45_135_0''
      \<or> cc = F ''POLARIZATION_BG12_PACKED_90_45_135_0''
      \<or> cc = F ''POLARIZATION_PACKED8_BAYER_BG''
      \<or> cc = F ''POLARIZATION_PACKED16_BAYER_BG'')"

subsection \<open>The preferred format\<close>

text \<open>
  The chain of tests in the loop of \<open>find_preferred_format\<close>: the key under which a
  fourcc is stored in the \<open>std::map\<close>, or none when only an error is logged.
\<close>

definition preferred_rank :: "fourcc_table \<Rightarrow> 32 word \<Rightarrow> int option" where
  "preferred_rank F cc =
     (if tcam_gst_is_fourcc_bayer F cc then Some 0
      else if tcam_gst_is_fourcc_rgb F cc then Some 10
      else if tcam_gst_is_fourcc_yuv F cc then Some 20
      else if cc = F ''MJPG'' then Some 30
      else if cc = F ''Y800'' then Some 40
      else if cc = F ''Y16'' then Some 50
      else if tcam_gst_is_bayerpwl_fourcc F cc then Some 60
      else if tcam_gst_is_bayer10_fourcc F cc \<or> tcam_gst_is_bayer10_packed_fourcc F cc
        then Some 65
      else if tcam_gst_is_bayer12_fourcc F cc \<or> tcam_gst_is_bayer12_packed_fourcc F cc
        then Some 70
      else if tcam_gst_is_bayer16_fourcc F cc then Some 80
      else if tcam_gst_is_polarized_bayer F cc then Some 90
      else if tcam_gst_is_polarized_mono F cc then Some 100
      else None)"

text \<open>
  The \<open>std::map<int, uint32_t>\<close> is an association list with one entry per key;
  \<open>map[k] = v\<close> is \<open>AList.update\<close>, and \<open>map.begin()\<close> is the entry with the least key.
\<close>

fun map_begin :: "(int \<times> 'a) list \<Rightarrow> (int \<times> 'a) option" where
  "map_begin [] = None"
| "map_begin (e # es) =
     (case map_begin es of
        None \<Rightarrow> Some e
      | Some e' \<Rightarrow> if fst e \<le> fst e' then Some e else Some e')"

text \<open>The body of the loop of \<open>find_preferred_format\<close>.\<close>

definition store_rank ::
  "fourcc_table \<Rightarrow> (int \<times> 32 word) list \<Rightarrow> 32 word \<Rightarrow> (int \<times> 32 word) list" where
  "store_rank F m cc =
     (case preferred_rank F cc of
        None \<Rightarrow> m
      | Some k \<Rightarrow> AList.update k cc m)"

definition find_preferred_format :: "fourcc_table \<Rightarrow> 32 word list \<Rightarrow> 32 word" where
  "find_preferred_format F vec =
     (if vec = [] then 0
      else
        (case map_begin (foldl (store_rank F) [] vec) of
           None \<Rightarrow> 0
         | Some e \<Rightarrow> snd e))"

subsection \<open>Capabilities\<close>

text \<open>
  \<open>GstCaps\<close>, \<open>GstStructure\<close> and \<open>GValue\<close> belong to GStreamer. A caps object is
  either ANY or a list of structures (EMPTY is the empty list); a structure is a name and
  a list of fields in the order they were set; a field's value is an integer, a string,
  a fraction, a range or a list of values. A \<open>GstCaps*\<close> that may be null is a
  \<open>GstCaps option\<close>.
\<close>

datatype GValue =
    G_INT int
  | G_STRING string
  | GST_FRACTION int int
  | GST_INT_RANGE int int
  | GST_FRACTION_RANGE int int int int
  | GST_LIST "GValue list"

datatype GType =
    G_TYPE_INVALID
  | G_TYPE_INT
  | G_TYPE_STRING
  | GST_TYPE_FRACTION
  | GST_TYPE_INT_RANGE
  | GST_TYPE_FRACTION_RANGE
  | GST_TYPE_LIST

record GstStructure =
  structure_name :: string
  structure_fields :: "(string \<times> GValue) list"

datatype GstCaps = GST_CAPS_ANY | GstCaps "GstStructure list"

fun G_VALUE_TYPE :: "GValue \<Rightarrow> GType" where
  "G_VALUE_TYPE (G_INT _) = G_TYPE_INT"
| "G_VALUE_TYPE (G_STRING _) = G_TYPE_STRING"
| "G_VALUE_TYPE (GST_FRACTION _ _) = GST_TYPE_FRACTION"
| "G_VALUE_TYPE (GST_INT_RANGE _ _) = GST_TYPE_INT_RANGE"
| "G_VALUE_TYPE (GST_FRACTION_RANGE _ _ _ _) = GST_TYPE_FRACTION_RANGE"
| "G_VALUE_TYPE (GST_LIST _) = GST_TYPE_LIST"

definition gst_structure_get_value :: "GstStructure \<Rightarrow> string \<Rightarrow> GValue option" where
  "gst_structure_get_value s field = map_of (structure_fields s) field"

definition gst_structure_has_field :: "GstStructure \<Rightarrow> string \<Rightarrow> bool" where
  "gst_structure_has_field s field = (gst_structure_get_value s field \<noteq> None)"

definition gst_structure_get_field_type :: "GstStructure \<Rightarrow> string \<Rightarrow> GType" where
  "gst_structure_get_field_type s field =
     (case gst_structure_get_value s field of
        None \<Rightarrow> G_TYPE_INVALID
      | Some v \<Rightarrow> G_VALUE_TYPE v)"

definition gst_structure_get_string :: "GstStructure \<Rightarrow> string \<Rightarrow> string option" where
  "gst_structure_get_string s field =
     (case gst_structure_get_value s field of
        Some (G_STRING x) \<Rightarrow> Some x
      | _ \<Rightarrow> None)"

definition gst_structure_get_int :: "GstStructure \<Rightarrow> string \<Rightarrow> int option" where
  "gst_structure_get_int s field =
     (case gst_structure_get_value s field of
        Some (G_INT x) \<Rightarrow> Some x
      | _ \<Rightarrow> None)"

definition gst_structure_get_fraction :: "GstStructure \<Rightarrow> string \<Rightarrow> (int \<times> int) option" where
  "gst_structure_get_fraction s field =
     (case gst_structure_get_value s field of
        Some (GST_FRACTION n d) \<Rightarrow> Some (n, d)
      | _ \<Rightarrow> None)"

definition gst_structure_set_value :: "string \<Rightarrow> GValue \<Rightarrow> GstStructure \<Rightarrow> GstStructure" where
  "gst_structure_set_value field v s =
     s\<lparr>structure_fields := AList.update field v (structure_fields s)\<rparr>"

definition gst_structure_remove_field :: "string \<Rightarrow> GstStructure \<Rightarrow> GstStructure" where
  "gst_structure_remove_field field s =
     s\<lparr>structure_fields := AList.delete field (structure_fields s)\<rparr>"

definition gst_structure_set_name :: "string \<Rightarrow> GstStructure \<Rightarrow> GstStructure" where
  "gst_structure_set_name name s = s\<lparr>structure_name := name\<rparr>"

fun structures :: "GstCaps \<Rightarrow> GstStructure list" where
  "structures GST_CAPS_ANY = []"
| "structures (GstCaps ss) = ss"

definition gst_caps_get_size :: "GstCaps \<Rightarrow> nat" where
  "gst_caps_get_size caps = length (structures caps)"

definition gst_caps_is_empty :: "GstCaps \<Rightarrow> bool" where
  "gst_caps_is_empty caps = (caps = GstCaps [])"

definition gst_caps_is_any :: "GstCaps \<Rightarrow> bool" where
  "gst_caps_is_any caps = (caps = GST_CAPS_ANY)"

fun gst_value_is_fixed :: "GValue \<Rightarrow> bool" where
  "gst_value_is_fixed (G_INT _) = True"
| "gst_value_is_fixed (G_STRING _) = True"
| "gst_value_is_fixed (GST_FRACTION _ _) = True"
| "gst_value_is_fixed (GST_INT_RANGE _ _) = False"
| "gst_value_is_fixed (GST_FRACTION_RANGE _ _ _ _) = False"
| "gst_value_is_fixed (GST_LIST _) = False"

definition gst_caps_is_fixed :: "GstCaps \<Rightarrow> bool" where
  "gst_caps_is_fixed caps =
     (case caps of
        GstCaps [s] \<Rightarrow> list_all (\<lambda>kv. gst_value_is_fixed (snd kv)) (structure_fields s)
      | _ \<Rightarrow> False)"

text \<open>Applies a change to every structure of a caps object, as the loops over
  \<open>gst_caps_get_size\<close> do; ANY has no structure.\<close>

fun map_structures :: "(GstStructure \<Rightarrow> GstStructure) \<Rightarrow> GstCaps \<Rightarrow> GstCaps" where
  "map_structures g GST_CAPS_ANY = GST_CAPS_ANY"
| "map_structures g (GstCaps ss) = GstCaps (map g ss)"

definition gst_caps_set_value :: "string \<Rightarrow> GValue \<Rightarrow> GstCaps \<Rightarrow> GstCaps" where
  "gst_caps_set_value field v caps = map_structures (gst_structure_set_value field v) caps"

definition gst_caps_copy_nth :: "GstCaps \<Rightarrow> nat \<Rightarrow> GstCaps" where
  "gst_caps_copy_nth caps n =
     (case caps of
        GST_CAPS_ANY \<Rightarrow> GST_CAPS_ANY
      | GstCaps ss \<Rightarrow> if n < length ss then GstCaps [ss ! n] else GstCaps [])"

definition G_MAXINT :: int where
  "G_MAXINT = 2147483647"

text \<open>
  \<open>gst_structure_fixate_field_nearest_int\<close>: a range becomes the target clamped into it,
  a list becomes the integer of the list nearest to the target (the first one among
  equally near ones), anything else stays.
\<close>

fun nearest_int :: "int \<Rightarrow> GValue list \<Rightarrow> int option \<Rightarrow> int option" where
  "nearest_int target [] best = best"
| "nearest_int target (G_INT x # vs) best =
     nearest_int target vs
       (case best of
          None \<Rightarrow> Some x
        | Some b \<Rightarrow> if \<bar>target - x\<bar> < \<bar>target - b\<bar> then Some x else Some b)"
| "nearest_int target (v # vs) best = nearest_int target vs best"

definition gst_structure_fixate_field_nearest_int ::
  "string \<Rightarrow> int \<Rightarrow> GstStructure \<Rightarrow> GstStructure" where
  "gst_structure_fixate_field_nearest_int field target s =
     (case gst_structure_get_value s field of
        Some (GST_INT_RANGE lo hi) \<Rightarrow>
          gst_structure_set_value field (G_INT (min hi (max lo target))) s
      | Some (GST_LIST vs) \<Rightarrow>
          (case nearest_int target vs None of
             None \<Rightarrow> s
           | Some b \<Rightarrow> gst_structure_set_value field (G_INT b) s)
      | _ \<Rightarrow> s)"

text \<open>
  \<open>gst_structure_fixate_field_nearest_fraction\<close>, with exact arithmetic where GStreamer
  compares doubles. Denominators are positive. \<open>fraction_nearer tn td a b\<close> says that
  the fraction \<open>a\<close> is strictly nearer to \<open>tn/td\<close> than \<open>b\<close> is.
\<close>

definition fraction_less :: "int \<times> int \<Rightarrow> int \<times> int \<Rightarrow> bool" where
  "fraction_less a b = (fst a * snd b < fst b * snd a)"

definition fraction_nearer :: "int \<Rightarrow> int \<Rightarrow> int \<times> int \<Rightarrow> int \<times> int \<Rightarrow> bool" where
  "fraction_nearer tn td a b =
     (\<bar>tn * snd a - fst a * td\<bar> * snd b < \<bar>tn * snd b - fst b * td\<bar> * snd a)"

fun nearest_fraction ::
  "int \<Rightarrow> int \<Rightarrow> GValue list \<Rightarrow> (int \<times> int) option \<Rightarrow> (int \<times> int) option" where
  "nearest_fraction tn td [] best = best"
| "nearest_fraction tn td (GST_FRACTION n d # vs) best =
     nearest_fraction tn td vs
       (case best of
          None \<Rightarrow> Some (n, d)
        | Some b \<Rightarrow> if fraction_nearer tn td (n, d) b then Some (n, d) else Some b)"
| "nearest_fraction tn td (v # vs) best = nearest_fraction tn td vs best"

definition gst_structure_fixate_field_nearest_fraction ::
  "string \<Rightarrow> int \<Rightarrow> int \<Rightarrow> GstStructure \<Rightarrow> GstStructure" where
  "gst_structure_fixate_field_nearest_fraction field tn td s =
     (case gst_structure_get_value s field of
        Some (GST_FRACTION_RANGE n1 d1 n2 d2) \<Rightarrow>
          (if fraction_less (tn, td) (n1, d1)
             then gst_structure_set_value field (GST_FRACTION n1 d1) s
           else if fraction_less (n2, d2) (tn, td)
             then gst_structure_set_value field (GST_FRACTION n2 d2) s
           else gst_structure_set_value field (GST_FRACTION tn td) s)
      | Some (GST_LIST vs) \<Rightarrow>
          (case nearest_fraction tn td vs None of
             None \<Rightarrow> s
           | Some b \<Rightarrow> gst_structure_set_value field (GST_FRACTION (fst b) (snd b)) s)
      | _ \<Rightarrow> s)"

subsection \<open>What the negotiation takes from its environment\<close>

text \<open>
  The GStreamer registry, the intersection of caps, the parser of caps strings, the
  table of fourcc constants and \<open>tcam_fourcc_from_gst_1_0_caps_string\<close> are not part of
  the sources at hand: they are the fields of an environment that every function below
  takes as its first argument. An element factory is what it answers to
  \<open>gst_element_factory_can_src_any_caps\<close> and \<open>gst_element_factory_can_sink_any_caps\<close>;
  an element made by \<open>gst_element_factory_make\<close> is what \<open>gst_pad_query_caps\<close> answers
  for each of its static pads.
\<close>

record GstElementFactory =
  gst_element_factory_can_src_any_caps :: "GstCaps \<Rightarrow> bool"
  gst_element_factory_can_sink_any_caps :: "GstCaps \<Rightarrow> bool"

record gst_environment =
  fourcc_constants :: fourcc_table
  tcam_fourcc_from_gst_1_0_caps_string :: "string \<Rightarrow> string option \<Rightarrow> 32 word"
  gst_caps_intersect :: "GstCaps \<Rightarrow> GstCaps \<Rightarrow> GstCaps"
  gst_caps_from_string :: "string \<Rightarrow> GstCaps option"
  gst_element_factory_find :: "string \<Rightarrow> GstElementFactory option"
  gst_element_factory_make :: "string \<Rightarrow> (string \<Rightarrow> GstCaps option) option"

text \<open>GLib's argument checks: a call on a null caps pointer returns false or null.\<close>

definition can_sink_any_caps_checked :: "GstElementFactory \<Rightarrow> GstCaps option \<Rightarrow> bool" where
  "can_sink_any_caps_checked factory caps =
     (case caps of
        None \<Rightarrow> False
      | Some c \<Rightarrow> gst_element_factory_can_sink_any_caps factory c)"

definition gst_caps_intersect_checked ::
  "gst_environment \<Rightarrow> GstCaps option \<Rightarrow> GstCaps option \<Rightarrow> GstCaps option" where
  "gst_caps_intersect_checked env a b =
     (case (a, b) of
        (Some x, Some y) \<Rightarrow> Some (gst_caps_intersect env x y)
      | _ \<Rightarrow> None)"

subsection \<open>Helpers of tcamgstbase.cpp\<close>

fun gst_list_to_vector :: "GValue \<Rightarrow> string list" where
  "gst_list_to_vector (GST_LIST vs) =
     concat (map (\<lambda>v. case v of G_STRING x \<Rightarrow> [x] | _ \<Rightarrow> []) vs)"
| "gst_list_to_vector _ = []"

definition mono_formats :: "string list" where
  "mono_formats = [''GRAY8'', ''GRAY16_LE'', ''GRAY16_BE'', ''GRAY12p'',
                   ''GRAY10p'', ''GRAY12m'', ''GRAY10m'']"

definition correct_format :: "string option \<Rightarrow> bool" where
  "correct_format str =
     (case str of
        None \<Rightarrow> False
      | Some x \<Rightarrow> list_ex (\<lambda>op2. x = op2) mono_formats)"

text \<open>The loop of \<open>tcam_gst_raw_only_has_mono\<close>; it returns false at the first structure
  that is not a raw mono one.\<close>

fun raw_only_has_mono_loop :: "GstStructure list \<Rightarrow> bool" where
  "raw_only_has_mono_loop [] = True"
| "raw_only_has_mono_loop (struc # rest) =
     (if structure_name struc = ''video/x-raw'' then
        (if gst_structure_has_field struc ''format'' then
           (if gst_structure_get_field_type struc ''format'' = G_TYPE_STRING then
              (if \<not> correct_format (gst_structure_get_string struc ''format'') then False
               else raw_only_has_mono_loop rest)
            else if gst_structure_get_field_type struc ''format'' = GST_TYPE_LIST then
              (if list_ex (\<lambda>fmt. \<not> correct_format (Some fmt))
                    (case gst_structure_get_value struc ''format'' of
                       None \<Rightarrow> []
                     | Some v \<Rightarrow> gst_list_to_vector v)
               then False
               else raw_only_has_mono_loop rest)
            else raw_only_has_mono_loop rest)
         else False)
      else False)"

definition tcam_gst_raw_only_has_mono :: "GstCaps option \<Rightarrow> bool" where
  "tcam_gst_raw_only_has_mono caps =
     (case caps of
        None \<Rightarrow> False
      | Some c \<Rightarrow> raw_only_has_mono_loop (structures c))"

definition tcam_gst_fixate_caps :: "GstCaps option \<Rightarrow> bool \<times> GstCaps option" where
  "tcam_gst_fixate_caps caps =
     (case caps of
        None \<Rightarrow> (False, caps)
      | Some GST_CAPS_ANY \<Rightarrow> (False, caps)
      | Some (GstCaps []) \<Rightarrow> (False, caps)
      | Some (GstCaps (structure # rest)) \<Rightarrow>
          (let s1 = (if gst_structure_has_field structure ''width''
                     then gst_structure_fixate_field_nearest_int ''width'' G_MAXINT structure
                     else structure);
               s2 = (if gst_structure_has_field s1 ''height''
                     then gst_structure_fixate_field_nearest_int ''height'' G_MAXINT s1
                     else s1);
               s3 = (if gst_structure_has_field s2 ''framerate''
                     then gst_structure_fixate_field_nearest_fraction ''framerate'' G_MAXINT 1 s2
                     else s2)
           in (True, Some (GstCaps (s3 # rest)))))"

definition gst_caps_change_name :: "string \<Rightarrow> GstCaps \<Rightarrow> GstCaps" where
  "gst_caps_change_name name caps =
     map_structures
       (\<lambda>struc. gst_structure_remove_field ''format'' (gst_structure_set_name name struc)) caps"

text \<open>The loop that removes the field \<open>format\<close> from every structure of a copy of the
  wanted caps.\<close>

definition remove_format_fields :: "GstCaps \<Rightarrow> GstCaps" where
  "remove_format_fields caps = map_structures (gst_structure_remove_field ''format'') caps"

text \<open>
  \<open>is_really_empty_caps\<close> compares the printed caps with \<open>"EMPTY"\<close>, which is how
  GStreamer prints the empty caps, instead of calling \<open>gst_caps_is_empty\<close>.
\<close>

definition is_really_empty_caps :: "GstCaps option \<Rightarrow> bool" where
  "is_really_empty_caps caps =
     (case caps of
        None \<Rightarrow> True
      | Some c \<Rightarrow> if gst_caps_is_empty c \<or> gst_caps_is_any c then True else False)"

text \<open>The formats of one structure, as \<open>index_format_fourccs\<close> reads them.\<close>

definition structure_format_strings :: "GstStructure \<Rightarrow> string list" where
  "structure_format_strings struc =
     (if gst_structure_get_field_type struc ''format'' = GST_TYPE_LIST then
        (case gst_structure_get_value struc ''format'' of
           None \<Rightarrow> []
         | Some v \<Rightarrow> gst_list_to_vector v)
      else if gst_structure_get_field_type struc ''format'' = G_TYPE_STRING then
        (case gst_structure_get_string struc ''format'' of
           None \<Rightarrow> []
         | Some x \<Rightarrow> [x])
      else [])"

definition add_format :: "gst_environment \<Rightarrow> string \<Rightarrow> string \<Rightarrow> 32 word list" where
  "add_format env name fmt =
     (let cc = tcam_fourcc_from_gst_1_0_caps_string env name (Some fmt)
      in if cc \<noteq> 0 then [cc] else [])"

definition index_format_fourccs :: "gst_environment \<Rightarrow> GstCaps option \<Rightarrow> 32 word list" where
  "index_format_fourccs env caps =
     (if is_really_empty_caps caps then []
      else
        (let ret = concat (map (\<lambda>struc.
                     let vec = structure_format_strings struc;
                         name = structure_name struc
                     in if vec \<noteq> [] then concat (map (add_format env name) vec)
                        else add_format env name [])
                   (case caps of None \<Rightarrow> [] | Some c \<Rightarrow> structures c))
         in remdups_adj (sort ret)))"

subsection \<open>The largest caps\<close>

text \<open>
  The loop of \<open>tcam_gst_find_largest_caps\<close> over the structures, with the index of the
  current structure; the state is \<open>(largest_index, largest_width, largest_height)\<close>.
\<close>

fun largest_loop ::
  "gst_environment \<Rightarrow> 32 word \<Rightarrow> nat \<Rightarrow> GstStructure list \<Rightarrow> nat \<times> int \<times> int \<Rightarrow>
   nat \<times> int \<times> int" where
  "largest_loop env preferred_fourcc i [] st = st"
| "largest_loop env preferred_fourcc i (struc # rest) (largest_index, largest_width, largest_height) =
     (let format = gst_structure_get_string struc ''format'';
          cc = tcam_fourcc_from_gst_1_0_caps_string env (structure_name struc) format
      in if cc \<noteq> preferred_fourcc
         then largest_loop env preferred_fourcc (i + 1) rest
                (largest_index, largest_width, largest_height)
         else
           (let new_width =
                  (if gst_structure_get_field_type struc ''width'' = G_TYPE_INT then
                     (case gst_structure_get_int struc ''width'' of
                        Some width \<Rightarrow> largest_width < width
                      | None \<Rightarrow> False)
                   else False);
                largest_width' =
                  (if new_width then
                     (case gst_structure_get_int struc ''width'' of
                        Some width \<Rightarrow> width
                      | None \<Rightarrow> largest_width)
                   else largest_width);
                new_height =
                  (if gst_structure_get_field_type struc ''height'' = G_TYPE_INT then
                     (case gst_structure_get_int struc ''height'' of
                        Some height \<Rightarrow> largest_height \<le> height
                      | None \<Rightarrow> False)
                   else False);
                largest_height' =
                  (if new_height then
                     (case gst_structure_get_int struc ''height'' of
                        Some height \<Rightarrow> height
                      | None \<Rightarrow> largest_height)
                   else largest_height);
                largest_index' = (if new_width \<or> new_height then i else largest_index)
            in largest_loop env preferred_fourcc (i + 1) rest
                 (largest_index', largest_width', largest_height')))"

text \<open>
  After fixating, the function reads \<open>height\<close>, \<open>width\<close> and \<open>framerate\<close> into local
  variables without looking at whether the reads succeed; a failed read leaves the
  variable uninitialised, which is the outcome \<open>Uninitialised_read\<close>.
\<close>

datatype 'a outcome = Returns 'a | Uninitialised_read

definition tcam_gst_find_largest_caps ::
  "gst_environment \<Rightarrow> GstCaps option \<Rightarrow> GstCaps option outcome" where
  "tcam_gst_find_largest_caps env incoming =
     (let format_fourccs = index_format_fourccs env incoming;
          preferred_fourcc = find_preferred_format (fourcc_constants env) format_fourccs
      in if is_really_empty_caps incoming then Returns None
         else
           (case incoming of
              None \<Rightarrow> Returns None
            | Some inc \<Rightarrow>
                (let largest_index =
                       fst (largest_loop env preferred_fourcc 0 (structures inc) (0, - 1, - 1));
                     largest_caps = Some (gst_caps_copy_nth inc largest_index)
                 in case tcam_gst_fixate_caps largest_caps of
                      (True, Some (GstCaps (s # rest))) \<Rightarrow>
                        (case (gst_structure_get_int s ''height'',
                               gst_structure_get_int s ''width'',
                               gst_structure_get_fraction s ''framerate'') of
                           (Some h, Some w, Some (num, den)) \<Rightarrow>
                             (let ret_caps = \<lparr>structure_name = structure_name s,
                                    structure_fields =
                                      [(''framerate'', GST_FRACTION num den),
                                       (''width'', G_INT w),
                                       (''height'', G_INT h)]\<rparr>
                              in Returns (Some (GstCaps
                                   [case gst_structure_get_value s ''format'' of
                                      None \<Rightarrow> ret_caps
                                    | Some v \<Rightarrow> gst_structure_set_value ''format'' v ret_caps])))
                         | _ \<Rightarrow> Uninitialised_read)
                    | _ \<Rightarrow> Returns None)))"

subsection \<open>Finding the input caps\<close>

record input_caps_required_modules =
  bayertransform :: bool
  bayer2rgb :: bool
  videoconvert :: bool
  jpegdec :: bool
  dutils :: bool

record input_caps_toggles =
  use_dutils :: bool
  use_by1xtransform :: bool

definition reset_input_caps_modules :: input_caps_required_modules where
  "reset_input_caps_modules =
     \<lparr>bayertransform = False, bayer2rgb = False, videoconvert = False, jpegdec = False,
      dutils = False\<rparr>"

definition get_caps_from_element_name ::
  "gst_environment \<Rightarrow> string \<Rightarrow> string \<Rightarrow> GstCaps option" where
  "get_caps_from_element_name env elementname padname =
     (case gst_element_factory_make env elementname of
        None \<Rightarrow> None
      | Some ele \<Rightarrow> ele padname)"

definition index_caps_formats :: "GstCaps \<Rightarrow> string list" where
  "index_caps_formats caps =
     (let ret = concat (map (\<lambda>struc.
                  if gst_structure_get_field_type struc ''format'' = GST_TYPE_LIST then
                    map (\<lambda>v. structure_name struc @ '',format='' @ v)
                      (case gst_structure_get_value struc ''format'' of
                         None \<Rightarrow> []
                       | Some l \<Rightarrow> gst_list_to_vector l)
                  else if gst_structure_get_field_type struc ''format'' = G_TYPE_STRING then
                    (case gst_structure_get_string struc ''format'' of
                       None \<Rightarrow> []
                     | Some x \<Rightarrow> [structure_name struc @ '',format='' @ x])
                  else [])
                (structures caps))
      in remdups_adj (sort ret))"

text \<open>\<open>gst_caps_append\<close>: ANY absorbs, otherwise the structures of the second caps follow
  those of the first.\<close>

fun gst_caps_append :: "GstCaps \<Rightarrow> GstCaps \<Rightarrow> GstCaps" where
  "gst_caps_append (GstCaps xs) (GstCaps ys) = GstCaps (xs @ ys)"
| "gst_caps_append _ _ = GST_CAPS_ANY"

definition set_if_present :: "string \<Rightarrow> GValue option \<Rightarrow> GstCaps \<Rightarrow> GstCaps" where
  "set_if_present field v caps =
     (case v of None \<Rightarrow> caps | Some x \<Rightarrow> gst_caps_set_value field x caps)"

definition create_caps_for_formats ::
  "gst_environment \<Rightarrow> GstCaps \<Rightarrow> GstCaps \<Rightarrow> GstCaps option" where
  "create_caps_for_formats env formats rest =
     (if \<not> gst_caps_is_fixed rest then None
      else
        (case structures rest of
           [] \<Rightarrow> None
         | st # others \<Rightarrow>
             (let width = gst_structure_get_value st ''width'';
                  height = gst_structure_get_value st ''height'';
                  framerate = gst_structure_get_value st ''framerate'';
                  caps_formats = index_caps_formats formats
              in if caps_formats = [] then None
                 else Some (foldl (\<lambda>ret fmt.
                        case gst_caps_from_string env fmt of
                          None \<Rightarrow> ret
                        | Some tmp \<Rightarrow>
                            gst_caps_append ret
                              (set_if_present ''framerate'' framerate
                                (set_if_present ''height'' height
                                  (set_if_present ''width'' width tmp))))
                      (GstCaps []) caps_formats))))"

text \<open>
  \<open>find_input_caps_dutils\<close> gets four of the module flags by reference; here it gets the
  record and returns it. The wanted caps it is called with are never null, so their
  printed form is never \<open>"NULL"\<close> and that test of the source is always passed.
\<close>

definition find_input_caps_dutils ::
  "gst_environment \<Rightarrow> GstCaps \<Rightarrow> GstCaps \<Rightarrow> input_caps_required_modules \<Rightarrow>
   (input_caps_required_modules \<times> GstCaps option) outcome" where
  "find_input_caps_dutils env available_caps wanted_caps modules =
     (let m1 = modules\<lparr>videoconvert := True\<rparr> in
      case gst_element_factory_find env ''tcamdutils'' of
        None \<Rightarrow> Returns (m1, None)
      | Some dutils_factory \<Rightarrow>
          if gst_element_factory_can_src_any_caps dutils_factory wanted_caps
             \<and> gst_element_factory_can_sink_any_caps dutils_factory available_caps
          then
            (let m2 = m1\<lparr>dutils := True\<rparr> in
             if \<not> gst_caps_is_fixed available_caps then
               (if \<not> gst_caps_is_empty wanted_caps then
                  (if \<not> gst_caps_is_fixed wanted_caps then
                     (let ret = gst_caps_intersect env available_caps wanted_caps
                      in if gst_caps_is_empty ret then Returns (m2, Some available_caps)
                         else Returns (m2, Some ret))
                   else
                     (case create_caps_for_formats env available_caps wanted_caps of
                        None \<Rightarrow> Returns (m2, None)
                      | Some possible_matches \<Rightarrow>
                          if gst_caps_is_empty possible_matches then Returns (m2, None)
                          else Returns
                                 (m2, Some (gst_caps_intersect env available_caps possible_matches))))
                else
                  (case tcam_gst_find_largest_caps env (Some available_caps) of
                     Uninitialised_read \<Rightarrow> Uninitialised_read
                   | Returns ret \<Rightarrow> Returns (m2, ret)))
             else Returns (m2, Some available_caps))
          else Returns (m1, None))"

text \<open>
  The blocks of \<open>find_input_caps\<close>, in the order of the function. Each gives the pair
  the function returns from inside the block, or \<open>None\<close> when control leaves the block
  at its end. No block changes the module flags unless it returns.
\<close>

definition by1xtransform_block ::
  "gst_environment \<Rightarrow> GstCaps \<Rightarrow> GstCaps \<Rightarrow>
   (input_caps_required_modules \<times> GstCaps option) option" where
  "by1xtransform_block env available_caps wanted_caps =
     (case gst_element_factory_find env ''tcamby1xtransform'' of
        None \<Rightarrow> None
      | Some bayer_transform \<Rightarrow>
          if gst_element_factory_can_src_any_caps bayer_transform wanted_caps
             \<and> gst_element_factory_can_sink_any_caps bayer_transform available_caps
          then Some (reset_input_caps_modules\<lparr>bayertransform := True\<rparr>,
                     Some (gst_caps_intersect env available_caps
                             (gst_caps_change_name ''video/x-bayer'' wanted_caps)))
          else
            (let debayer = gst_element_factory_find env ''bayer2rgb'' in
             if (case debayer of
                   None \<Rightarrow> False
                 | Some d \<Rightarrow>
                     \<not> tcam_gst_raw_only_has_mono (Some available_caps)
                     \<and> gst_element_factory_can_src_any_caps d wanted_caps
                     \<and> gst_element_factory_can_sink_any_caps bayer_transform available_caps)
             then Some (reset_input_caps_modules\<lparr>bayertransform := True, bayer2rgb := True\<rparr>,
                        Some (gst_caps_intersect env available_caps
                                (gst_caps_change_name ''video/x-bayer'' wanted_caps)))
             else
               (case gst_element_factory_find env ''videoconvert'' of
                  None \<Rightarrow> None
                | Some convert \<Rightarrow>
                    (let transform_out_caps =
                           get_caps_from_element_name env ''tcamby1xtransform'' ''src''
                     in if gst_element_factory_can_src_any_caps convert wanted_caps
                           \<and> can_sink_any_caps_checked convert transform_out_caps
                        then
                          (case transform_out_caps of
                             None \<Rightarrow> None
                           | Some out_caps \<Rightarrow>
                               (let intersect = gst_caps_intersect env out_caps wanted_caps
                                in if \<not> gst_caps_is_empty intersect
                                   then Some (reset_input_caps_modules, Some intersect)
                                   else
                                     (let inp = get_caps_from_element_name env
                                                  ''tcamby1xtransform'' ''sink'';
                                          ret = gst_caps_intersect_checked env
                                                  (Some available_caps) inp;
                                          temp = remove_format_fields wanted_caps;
                                          ret2 = gst_caps_intersect_checked env ret (Some temp)
                                      in Some (reset_input_caps_modules
                                                 \<lparr>bayertransform := True, videoconvert := True\<rparr>,
                                               ret2))))
                        else None))))"

definition bayer2rgb_block ::
  "gst_environment \<Rightarrow> GstCaps \<Rightarrow> GstCaps \<Rightarrow>
   (input_caps_required_modules \<times> GstCaps option) option" where
  "bayer2rgb_block env available_caps wanted_caps =
     (case gst_element_factory_find env ''bayer2rgb'' of
        None \<Rightarrow> None
      | Some debayer \<Rightarrow>
          if gst_element_factory_can_src_any_caps debayer wanted_caps
             \<and> gst_element_factory_can_sink_any_caps debayer available_caps
          then Some (reset_input_caps_modules\<lparr>bayer2rgb := True\<rparr>,
                     Some (gst_caps_intersect env available_caps
                             (gst_caps_change_name ''video/x-bayer'' wanted_caps)))
          else
            (case gst_element_factory_find env ''videoconvert'' of
               None \<Rightarrow> None
             | Some convert \<Rightarrow>
                 if gst_element_factory_can_src_any_caps convert wanted_caps
                    \<and> gst_element_factory_can_sink_any_caps debayer available_caps
                 then Some (reset_input_caps_modules\<lparr>bayer2rgb := True, videoconvert := True\<rparr>,
                            Some (gst_caps_intersect env available_caps
                                    (gst_caps_change_name ''video/x-bayer'' wanted_caps)))
                 else None))"

definition videoconvert_block ::
  "gst_environment \<Rightarrow> GstCaps \<Rightarrow> GstCaps \<Rightarrow>
   (input_caps_required_modules \<times> GstCaps option) option" where
  "videoconvert_block env available_caps wanted_caps =
     (case gst_element_factory_find env ''videoconvert'' of
        None \<Rightarrow> None
      | Some convert \<Rightarrow>
          if gst_element_factory_can_src_any_caps convert wanted_caps
             \<and> gst_element_factory_can_sink_any_caps convert available_caps
          then
            (let intersect = gst_caps_intersect env available_caps wanted_caps
             in if \<not> gst_caps_is_empty intersect
                then Some (reset_input_caps_modules, Some intersect)
                else
                  (let inp = get_caps_from_element_name env ''videoconvert'' ''sink'';
                       ret = gst_caps_intersect_checked env (Some available_caps) inp;
                       temp = remove_format_fields wanted_caps;
                       ret2 = gst_caps_intersect_checked env ret (Some temp)
                   in Some (reset_input_caps_modules\<lparr>videoconvert := True\<rparr>, ret2)))
          else None)"

definition jpegdec_block ::
  "gst_environment \<Rightarrow> GstCaps \<Rightarrow> GstCaps \<Rightarrow>
   (input_caps_required_modules \<times> GstCaps option) option" where
  "jpegdec_block env available_caps wanted_caps =
     (case gst_element_factory_find env ''jpegdec'' of
        None \<Rightarrow> None
      | Some jpegdec_factory \<Rightarrow>
          if gst_element_factory_can_src_any_caps jpegdec_factory wanted_caps
             \<and> gst_element_factory_can_sink_any_caps jpegdec_factory available_caps
          then Some (reset_input_caps_modules\<lparr>jpegdec := True, videoconvert := True\<rparr>,
                     Some (gst_caps_intersect env available_caps
                             (remove_format_fields
                                (gst_caps_change_name ''image/jpeg'' wanted_caps))))
          else None)"

definition raw_intersection ::
  "gst_environment \<Rightarrow> GstCaps \<Rightarrow> GstCaps \<Rightarrow> input_caps_required_modules \<times> GstCaps option" where
  "raw_intersection env available_caps wanted_caps =
     (let intersect = gst_caps_intersect env available_caps wanted_caps
      in if \<not> gst_caps_is_empty intersect then (reset_input_caps_modules, Some intersect)
         else (reset_input_caps_modules, None))"

definition find_input_caps ::
  "gst_environment \<Rightarrow> GstCaps option \<Rightarrow> GstCaps option \<Rightarrow> input_caps_toggles \<Rightarrow>
   (input_caps_required_modules \<times> GstCaps option) outcome" where
  "find_input_caps env available_caps wanted_caps toggles =
     (case available_caps of
        None \<Rightarrow> Returns (reset_input_caps_modules, None)
      | Some available \<Rightarrow>
          (let wanted = (case wanted_caps of
                           None \<Rightarrow> available
                         | Some w \<Rightarrow> if gst_caps_is_empty w then available else w)
           in if use_dutils toggles \<and> gst_element_factory_find env ''tcamdutils'' \<noteq> None
              then find_input_caps_dutils env available wanted reset_input_caps_modules
              else
                (case (if use_by1xtransform toggles
                       then by1xtransform_block env available wanted else None) of
                   Some r \<Rightarrow> Returns r
                 | None \<Rightarrow>
                     (case bayer2rgb_block env available wanted of
                        Some r \<Rightarrow> Returns r
                      | None \<Rightarrow>
                          (case videoconvert_block env available wanted of
                             Some r \<Rightarrow> Returns r
                           | None \<Rightarrow>
                               (case jpegdec_block env available wanted of
                                  Some r \<Rightarrow> Returns r
                                | None \<Rightarrow> Returns (raw_intersection env available wanted)))))))"

section \<open>Concrete collaborators and inputs\<close>

text \<open>
  The instances at which the theorems below are evaluated: sources and sinks with fixed
  answers, managers in given states, a table of fourcc codes, caps of a camera, and an
  environment with three element factories.
\<close>

subsection \<open>Managers\<close>

definition accepting_source :: ImageSource where
  "accepting_source =
     \<lparr>source_set_status = (\<lambda>s. True), source_setVideoFormat = (\<lambda>f. True),
      source_set_buffer_collection = True\<rparr>"

text \<open>A source that refuses to stop.\<close>

definition stubborn_source :: ImageSource where
  "stubborn_source =
     \<lparr>source_set_status = (\<lambda>s. s \<noteq> TCAM_PIPELINE_STOPPED),
      source_setVideoFormat = (\<lambda>f. True), source_set_buffer_collection = True\<rparr>"

definition accepting_sink :: SinkInterface where
  "accepting_sink = \<lparr>sink_set_status = (\<lambda>s. True), sink_setVideoFormat = (\<lambda>f. True)\<rparr>"

text \<open>A sink that refuses to play.\<close>

definition refusing_sink :: SinkInterface where
  "refusing_sink =
     \<lparr>sink_set_status = (\<lambda>s. s \<noteq> TCAM_PIPELINE_PLAYING), sink_setVideoFormat = (\<lambda>f. True)\<rparr>"

definition fourcc_Y800 :: "32 word" where
  "fourcc_Y800 = GST_MAKE_FOURCC (CHR ''Y'') (CHR ''8'') (CHR ''0'') (CHR ''0'')"

definition fourcc_RGGB :: "32 word" where
  "fourcc_RGGB = GST_MAKE_FOURCC (CHR ''R'') (CHR ''G'') (CHR ''G'') (CHR ''B'')"


definition mono_vga :: VideoFormat where
  "mono_vga = \<lparr>fourcc = fourcc_Y800, frame_width = 640, frame_height = 480, frame_rate = 30\<rparr>"

text \<open>A stopped manager of a mono camera, with source and sink attached and no filter
  registered; buffers are numbers.\<close>

definition idle_manager :: "nat PipelineManager" where
  "idle_manager =
     \<lparr>status = TCAM_PIPELINE_STOPPED, source = Some accepting_source,
      sink = Some accepting_sink, available_input_formats = [\<lparr>get_fourcc = fourcc_Y800\<rparr>],
      available_filter = [], filter_pipeline = [], input_format = mono_vga,
      output_format = mono_vga, m_entry_queue = [], m_pipeline_thread = False, calls = []\<rparr>"

definition refused_manager :: "nat PipelineManager" where
  "refused_manager = idle_manager\<lparr>sink := Some refusing_sink\<rparr>"

text \<open>A playing manager whose worker thread runs and whose source refuses to stop.\<close>

definition streaming_manager :: "nat PipelineManager" where
  "streaming_manager =
     idle_manager\<lparr>status := TCAM_PIPELINE_PLAYING, source := Some stubborn_source,
                  m_pipeline_thread := True, m_entry_queue := [7, 8]\<rparr>"

text \<open>Two interpretation filters: one declared for any encoding, one for a Bayer
  encoding, registered in this order.\<close>

definition autoexposure :: FilterInterface where
  "autoexposure =
     \<lparr>filter_name = ''autoexposure'', filter_type = FILTER_TYPE_INTERPRET,
      input_fourcc = [0], output_fourcc = [0],
      filter_setVideoFormat = (\<lambda>i out. True), filter_setStatus = (\<lambda>s. True)\<rparr>"

definition whitebalance :: FilterInterface where
  "whitebalance =
     \<lparr>filter_name = ''whitebalance'', filter_type = FILTER_TYPE_INTERPRET,
      input_fourcc = [fourcc_RGGB], output_fourcc = [fourcc_RGGB],
      filter_setVideoFormat = (\<lambda>i out. True), filter_setStatus = (\<lambda>s. True)\<rparr>"

definition bayer_manager :: "nat PipelineManager" where
  "bayer_manager =
     idle_manager\<lparr>available_input_formats := [\<lparr>get_fourcc = fourcc_RGGB\<rparr>],
                  available_filter := [autoexposure, whitebalance],
                  input_format := mono_vga\<lparr>fourcc := fourcc_RGGB\<rparr>,
                  output_format := mono_vga\<lparr>fourcc := fourcc_RGGB\<rparr>\<rparr>"




subsection \<open>A table of fourcc codes\<close>

text \<open>
  One table for the parameter \<open>F\<close>: the customary four-character codes of the names the
  examples use, and zero (no format) for every other name. The theorems evaluated at it
  need only that these codes differ from one another.
\<close>

definition sample_fourcc :: fourcc_table where
  "sample_fourcc name =
     (case map_of
        [(''GBRG8'', GST_MAKE_FOURCC (CHR ''G'') (CHR ''B'') (CHR ''R'') (CHR ''G'')),
         (''GRBG8'', GST_MAKE_FOURCC (CHR ''G'') (CHR ''R'') (CHR ''B'') (CHR ''G'')),
         (''RGGB8'', GST_MAKE_FOURCC (CHR ''R'') (CHR ''G'') (CHR ''G'') (CHR ''B'')),
         (''BGGR8'', GST_MAKE_FOURCC (CHR ''B'') (CHR ''A'') (CHR ''8'') (CHR ''1'')),
         (''BGR24'', GST_MAKE_FOURCC (CHR ''B'') (CHR ''G'') (CHR ''R'') (CHR ''3'')),
         (''BGRA32'', GST_MAKE_FOURCC (CHR ''B'') (CHR ''G'') (CHR ''R'') (CHR ''4'')),
         (''BGRA64'', GST_MAKE_FOURCC (CHR ''B'') (CHR ''G'') (CHR ''R'') (CHR ''6'')),
         (''YUY2'', GST_MAKE_FOURCC (CHR ''Y'') (CHR ''U'') (CHR ''Y'') (CHR ''2'')),
         (''UYVY'', GST_MAKE_FOURCC (CHR ''U'') (CHR ''Y'') (CHR ''V'') (CHR ''Y'')),
         (''IYU1'', GST_MAKE_FOURCC (CHR ''I'') (CHR ''Y'') (CHR ''U'') (CHR ''1'')),
         (''IYU2'', GST_MAKE_FOURCC (CHR ''I'') (CHR ''Y'') (CHR ''U'') (CHR ''2'')),
         (''Y411'', GST_MAKE_FOURCC (CHR ''Y'') (CHR ''4'') (CHR ''1'') (CHR ''1'')),
         (''NV12'', GST_MAKE_FOURCC (CHR ''N'') (CHR ''V'') (CHR ''1'') (CHR ''2'')),
         (''MJPG'', GST_MAKE_FOURCC (CHR ''M'') (CHR ''J'') (CHR ''P'') (CHR ''G'')),
         (''Y800'', GST_MAKE_FOURCC (CHR ''Y'') (CHR ''8'') (CHR ''0'') (CHR ''0'')),
         (''Y16'', GST_MAKE_FOURCC (CHR ''Y'') (CHR ''1'') (CHR ''6'') (CHR '' ''))]
        name of
        None \<Rightarrow> 0
      | Some cc \<Rightarrow> cc)"

text \<open>The caps strings of the examples and their fourcc codes; zero for any other.\<close>

definition sample_fourcc_from_caps_string :: "string \<Rightarrow> string option \<Rightarrow> 32 word" where
  "sample_fourcc_from_caps_string name fmt =
     (if name = ''video/x-bayer'' \<and> fmt = Some ''rggb'' then sample_fourcc ''RGGB8''
      else if name = ''video/x-raw'' \<and> fmt = Some ''GRAY8'' then sample_fourcc ''Y800''
      else if name = ''video/x-raw'' \<and> fmt = Some ''GRAY16_LE'' then sample_fourcc ''Y16''
      else if name = ''video/x-raw'' \<and> fmt = Some ''BGRx'' then sample_fourcc ''BGRA32''
      else if name = ''image/jpeg'' then sample_fourcc ''MJPG''
      else 0)"

subsection \<open>An intersection of caps\<close>

text \<open>
  A reading of \<open>gst_caps_intersect\<close> on the values above: two structures intersect when
  their names agree and every field they share has values in common; the result lists
  the structures in the order of the first caps. Lists hold no lists.
\<close>

fun scalar_intersect :: "GValue \<Rightarrow> GValue \<Rightarrow> GValue option" where
  "scalar_intersect (G_INT a) (G_INT b) = (if a = b then Some (G_INT a) else None)"
| "scalar_intersect (G_INT a) (GST_INT_RANGE lo hi) =
     (if lo \<le> a \<and> a \<le> hi then Some (G_INT a) else None)"
| "scalar_intersect (GST_INT_RANGE lo hi) (G_INT a) =
     (if lo \<le> a \<and> a \<le> hi then Some (G_INT a) else None)"
| "scalar_intersect (GST_INT_RANGE lo hi) (GST_INT_RANGE lo' hi') =
     (if max lo lo' < min hi hi' then Some (GST_INT_RANGE (max lo lo') (min hi hi'))
      else if max lo lo' = min hi hi' then Some (G_INT (max lo lo'))
      else None)"
| "scalar_intersect (G_STRING a) (G_STRING b) = (if a = b then Some (G_STRING a) else None)"
| "scalar_intersect (GST_FRACTION n d) (GST_FRACTION n' d') =
     (if n * d' = n' * d then Some (GST_FRACTION n d) else None)"
| "scalar_intersect (GST_FRACTION n d) (GST_FRACTION_RANGE n1 d1 n2 d2) =
     (if \<not> fraction_less (n, d) (n1, d1) \<and> \<not> fraction_less (n2, d2) (n, d)
      then Some (GST_FRACTION n d) else None)"
| "scalar_intersect (GST_FRACTION_RANGE n1 d1 n2 d2) (GST_FRACTION n d) =
     (if \<not> fraction_less (n, d) (n1, d1) \<and> \<not> fraction_less (n2, d2) (n, d)
      then Some (GST_FRACTION n d) else None)"
| "scalar_intersect (GST_FRACTION_RANGE n1 d1 n2 d2) (GST_FRACTION_RANGE n1' d1' n2' d2') =
     (let lo = (if fraction_less (n1, d1) (n1', d1') then (n1', d1') else (n1, d1));
          hi = (if fraction_less (n2, d2) (n2', d2') then (n2, d2) else (n2', d2'))
      in if fraction_less lo hi then Some (GST_FRACTION_RANGE (fst lo) (snd lo) (fst hi) (snd hi))
         else if fraction_less hi lo then None
         else Some (GST_FRACTION (fst lo) (snd lo)))"
| "scalar_intersect _ _ = None"

definition pack_values :: "GValue list \<Rightarrow> GValue option" where
  "pack_values vs =
     (case vs of
        [] \<Rightarrow> None
      | [v] \<Rightarrow> Some v
      | _ \<Rightarrow> Some (GST_LIST vs))"

fun value_intersect :: "GValue \<Rightarrow> GValue \<Rightarrow> GValue option" where
  "value_intersect (GST_LIST xs) (GST_LIST ys) =
     pack_values (concat (map (\<lambda>x. List.map_filter (scalar_intersect x) ys) xs))"
| "value_intersect (GST_LIST xs) y = pack_values (List.map_filter (\<lambda>x. scalar_intersect x y) xs)"
| "value_intersect x (GST_LIST ys) = pack_values (List.map_filter (scalar_intersect x) ys)"
| "value_intersect x y = scalar_intersect x y"

text \<open>The fields of the first structure, each intersected with the second structure's
  field of the same name if there is one; \<open>None\<close> when a shared field has no common
  value.\<close>

fun fields_intersect ::
  "(string \<times> GValue) list \<Rightarrow> (string \<times> GValue) list \<Rightarrow> (string \<times> GValue) list option" where
  "fields_intersect [] other = Some []"
| "fields_intersect ((k, v) # rest) other =
     (case (case map_of other k of None \<Rightarrow> Some v | Some v' \<Rightarrow> value_intersect v v') of
        None \<Rightarrow> None
      | Some w \<Rightarrow>
          (case fields_intersect rest other of
             None \<Rightarrow> None
           | Some ws \<Rightarrow> Some ((k, w) # ws)))"

definition structure_intersect :: "GstStructure \<Rightarrow> GstStructure \<Rightarrow> GstStructure option" where
  "structure_intersect a b =
     (if structure_name a \<noteq> structure_name b then None
      else
        (case fields_intersect (structure_fields a) (structure_fields b) of
           None \<Rightarrow> None
         | Some fs \<Rightarrow>
             Some \<lparr>structure_name = structure_name a,
                   structure_fields =
                     fs @ filter (\<lambda>kv. map_of (structure_fields a) (fst kv) = None)
                            (structure_fields b)\<rparr>))"

fun caps_intersect :: "GstCaps \<Rightarrow> GstCaps \<Rightarrow> GstCaps" where
  "caps_intersect GST_CAPS_ANY b = b"
| "caps_intersect a GST_CAPS_ANY = a"
| "caps_intersect (GstCaps xs) (GstCaps ys) =
     GstCaps (concat (map (\<lambda>x. List.map_filter (structure_intersect x) ys) xs))"

subsection \<open>An environment\<close>

text \<open>A factory with one sink and one source pad template: it can sink (source) any of
  some caps when they intersect the template.\<close>

definition factory_of_templates :: "GstCaps \<Rightarrow> GstCaps \<Rightarrow> GstElementFactory" where
  "factory_of_templates sink_template src_template =
     \<lparr>gst_element_factory_can_src_any_caps =
        (\<lambda>caps. \<not> gst_caps_is_empty (caps_intersect caps src_template)),
      gst_element_factory_can_sink_any_caps =
        (\<lambda>caps. \<not> gst_caps_is_empty (caps_intersect caps sink_template))\<rparr>"

definition any_size_and_rate :: "(string \<times> GValue) list" where
  "any_size_and_rate =
     [(''width'', GST_INT_RANGE 1 G_MAXINT), (''height'', GST_INT_RANGE 1 G_MAXINT),
      (''framerate'', GST_FRACTION_RANGE 0 1 G_MAXINT 1)]"

definition bayer2rgb_sink_template :: GstCaps where
  "bayer2rgb_sink_template =
     GstCaps [\<lparr>structure_name = ''video/x-bayer'',
               structure_fields =
                 (''format'', GST_LIST [G_STRING ''bggr'', G_STRING ''grbg'',
                                       G_STRING ''gbrg'', G_STRING ''rggb''])
                 # any_size_and_rate\<rparr>]"

definition bayer2rgb_src_template :: GstCaps where
  "bayer2rgb_src_template =
     GstCaps [\<lparr>structure_name = ''video/x-raw'',
               structure_fields =
                 (''format'', GST_LIST [G_STRING ''RGBx'', G_STRING ''xRGB'',
                                       G_STRING ''BGRx'', G_STRING ''xBGR'',
                                       G_STRING ''RGBA'', G_STRING ''ARGB'',
                                       G_STRING ''BGRA'', G_STRING ''ABGR''])
                 # any_size_and_rate\<rparr>]"

definition videoconvert_template :: GstCaps where
  "videoconvert_template =
     GstCaps [\<lparr>structure_name = ''video/x-raw'', structure_fields = any_size_and_rate\<rparr>]"

definition jpegdec_sink_template :: GstCaps where
  "jpegdec_sink_template =
     GstCaps [\<lparr>structure_name = ''image/jpeg'', structure_fields = []\<rparr>]"

definition jpegdec_src_template :: GstCaps where
  "jpegdec_src_template =
     GstCaps [\<lparr>structure_name = ''video/x-raw'',
               structure_fields =
                 (''format'', GST_LIST [G_STRING ''I420'', G_STRING ''RGB'', G_STRING ''BGR'',
                                       G_STRING ''RGBx'', G_STRING ''BGRx'',
                                       G_STRING ''GRAY8''])
                 # any_size_and_rate\<rparr>]"

definition sample_registry :: "(string \<times> GstCaps \<times> GstCaps) list" where
  "sample_registry =
     [(''bayer2rgb'', bayer2rgb_sink_template, bayer2rgb_src_template),
      (''videoconvert'', videoconvert_template, videoconvert_template),
      (''jpegdec'', jpegdec_sink_template, jpegdec_src_template)]"

definition sample_environment :: gst_environment where
  "sample_environment =
     \<lparr>fourcc_constants = sample_fourcc,
      tcam_fourcc_from_gst_1_0_caps_string = sample_fourcc_from_caps_string,
      gst_caps_intersect = caps_intersect,
      gst_caps_from_string = (\<lambda>s. None),
      gst_element_factory_find =
        (\<lambda>name. case map_of sample_registry name of
                   None \<Rightarrow> None
                 | Some t \<Rightarrow> Some (factory_of_templates (fst t) (snd t))),
      gst_element_factory_make =
        (\<lambda>name. case map_of sample_registry name of
                   None \<Rightarrow> None
                 | Some t \<Rightarrow>
                     Some (\<lambda>pad. if pad = ''sink'' then Some (fst t)
                                  else if pad = ''src'' then Some (snd t)
                                  else None))\<rparr>"

subsection \<open>Caps\<close>

definition fixed_structure ::
  "string \<Rightarrow> string \<Rightarrow> int \<Rightarrow> int \<Rightarrow> GValue \<Rightarrow> GstStructure" where
  "fixed_structure name fmt w h rate =
     \<lparr>structure_name = name,
      structure_fields =
        [(''format'', G_STRING fmt), (''width'', G_INT w), (''height'', G_INT h),
         (''framerate'', rate)]\<rparr>"

text \<open>A camera that offers the same frame as 8-bit Bayer and as BGRx.\<close>

definition bayer_and_bgrx_caps :: GstCaps where
  "bayer_and_bgrx_caps =
     GstCaps [fixed_structure ''video/x-bayer'' ''rggb'' 640 480 (GST_FRACTION 30 1),
              fixed_structure ''video/x-raw'' ''BGRx'' 640 480 (GST_FRACTION 30 1)]"

definition bgrx_wanted_caps :: GstCaps where
  "bgrx_wanted_caps =
     GstCaps [\<lparr>structure_name = ''video/x-raw'',
               structure_fields = [(''format'', G_STRING ''BGRx'')]\<rparr>]"

text \<open>A camera with two Bayer frame sizes of the same height.\<close>

definition two_sizes_caps :: GstCaps where
  "two_sizes_caps =
     GstCaps [fixed_structure ''video/x-bayer'' ''rggb'' 1920 1080
                (GST_LIST [GST_FRACTION 15 1, GST_FRACTION 30 1]),
              fixed_structure ''video/x-bayer'' ''rggb'' 1280 1080
                (GST_LIST [GST_FRACTION 15 1, GST_FRACTION 30 1, GST_FRACTION 60 1])]"


definition no_toggles :: input_caps_toggles where
  "no_toggles = \<lparr>use_dutils = False, use_by1xtransform = False\<rparr>"

subsection \<open>Notions the properties speak of\<close>





section \<open>Properties of the pipeline manager\<close>

subsection \<open>Facts about lists and the log\<close>


lemma isFilterApplicable_iff: "isFilterApplicable cc vec \<longleftrightarrow> cc \<in> set vec"
  by (auto simp: isFilterApplicable_def find_None_iff)

lemma single_zero: "(length xs = 1 \<and> xs ! 0 = (0::32 word)) \<longleftrightarrow> xs = [0]"
  by (cases xs) auto

lemma delivered_append: "delivered (cs @ ds) = delivered cs @ delivered ds"
  by (induction cs rule: delivered.induct) auto

lemma pushed_append: "pushed (xs @ ys) = pushed xs @ pushed ys"
  by (induction xs rule: pushed.induct) auto

subsection \<open>Changing the status\<close>

text \<open>
  C8. For every status \<open>s\<close>, \<open>set_status s\<close> on a manager whose status is already \<open>s\<close>
  returns true and leaves the manager as it is: status, filter chain, queue and thread
  are unchanged, and nothing is added to the log of calls on source, sink, filters,
  condition variable and thread.
\<close>

theorem set_status_same_status:
  "status m = s \<Longrightarrow> set_status s m = Some (True, m)"
  by (simp add: set_status_def)

theorem set_status_same_status_witness:
  "status streaming_manager = TCAM_PIPELINE_PLAYING
   \<and> set_status TCAM_PIPELINE_PLAYING streaming_manager = Some (True, streaming_manager)"
proof -
  have s: "status streaming_manager = TCAM_PIPELINE_PLAYING"
    by (simp add: streaming_manager_def)
  from set_status_same_status [OF s] s show ?thesis by simp
qed

text \<open>
  C10. For every target status other than playing and stopped (paused, undefined,
  error), \<open>set_status\<close> returns true and changes nothing but the status field: source,
  sink, filter chain, queue, thread and the log of calls stay as they were.
\<close>

theorem set_status_only_assigns:
  "s \<noteq> TCAM_PIPELINE_PLAYING \<Longrightarrow> s \<noteq> TCAM_PIPELINE_STOPPED \<Longrightarrow>
   set_status s m = Some (True, m\<lparr>status := s\<rparr>)"
  by (simp add: set_status_def)

theorem set_status_only_assigns_witness:
  "TCAM_PIPELINE_PAUSED \<noteq> TCAM_PIPELINE_PLAYING
   \<and> TCAM_PIPELINE_PAUSED \<noteq> TCAM_PIPELINE_STOPPED
   \<and> set_status TCAM_PIPELINE_PAUSED streaming_manager =
       Some (True, streaming_manager\<lparr>status := TCAM_PIPELINE_PAUSED\<rparr>)"
  using set_status_only_assigns [of TCAM_PIPELINE_PAUSED streaming_manager]
  by simp

subsection \<open>Starting\<close>

lemma stop_filters_status: "status (snd (stop_filters fs m)) = status m"
  by (induction fs arbitrary: m) (simp_all add: Let_def log_call_def)

lemma stop_filters_statusD: "stop_filters fs m = (r, m') \<Longrightarrow> status m' = status m"
  using stop_filters_status [of fs m] by simp

lemma stop_playing_status: "status (snd (stop_playing m)) = TCAM_PIPELINE_STOPPED"
  by (auto simp: stop_playing_def set_source_status_def set_sink_status_def Let_def
        log_call_def split: option.splits prod.splits bool.splits
        dest!: stop_filters_statusD)

text \<open>A failed start has run \<open>stop_playing\<close> and leaves the status stopped.\<close>

lemma start_playing_rolls_back:
  assumes "start_playing m = Some (False, m')"
  shows "(\<exists>m1. m' = snd (stop_playing m1)) \<and> status m' = TCAM_PIPELINE_STOPPED"
proof -
  from assms have "\<exists>m1. m' = snd (stop_playing m1)"
    by (auto simp: start_playing_def Let_def split: prod.splits bool.splits if_splits)
  then show ?thesis
    using stop_playing_status by auto
qed

text \<open>A successful start has a sink and a source, and the worker thread runs.\<close>

lemma start_playing_success:
  assumes "start_playing m = Some (True, m')"
  shows "sink m' \<noteq> None \<and> source m' \<noteq> None \<and> status m' = TCAM_PIPELINE_PLAYING
         \<and> m_pipeline_thread m'"
  using assms
  by (auto simp: start_playing_def set_sink_status_def set_source_status_def Let_def
        log_call_def split: prod.splits bool.splits if_splits option.splits)

text \<open>
  C3. When the sink refuses to play, \<open>start_playing\<close> rolls back through
  \<open>stop_playing\<close> and returns false, but \<open>set_status\<close> towards playing drops that
  result and returns true. Evaluated on a stopped manager whose sink refuses: the call
  returns true, the status ends stopped, no thread was started, and the log shows the
  calls of \<open>create_pipeline\<close>, the refused call and then the calls of \<open>stop_playing\<close>.
\<close>

theorem set_status_playing_reports_success:
  "map_option fst (set_status TCAM_PIPELINE_PLAYING refused_manager) = Some True
   \<and> map_option (\<lambda>r. status (snd r)) (set_status TCAM_PIPELINE_PLAYING refused_manager)
       = Some TCAM_PIPELINE_STOPPED
   \<and> map_option (\<lambda>r. m_pipeline_thread (snd r))
       (set_status TCAM_PIPELINE_PLAYING refused_manager) = Some False
   \<and> map_option fst
       (start_playing (snd (create_pipeline
          (refused_manager\<lparr>status := TCAM_PIPELINE_PLAYING\<rparr>)))) = Some False
   \<and> map_option (\<lambda>r. calls (snd r)) (set_status TCAM_PIPELINE_PLAYING refused_manager)
       = Some [SourceSetVideoFormat mono_vga, SinkSetVideoFormat mono_vga,
               SinkGetBufferCollection, SourceSetBufferCollection,
               PropertyFilterSetVideoFormat mono_vga mono_vga,
               SinkSetStatus TCAM_PIPELINE_PLAYING, NotifyAll,
               SourceSetStatus TCAM_PIPELINE_STOPPED, SinkSetStatus TCAM_PIPELINE_STOPPED,
               PropertyFilterSetStatus TCAM_PIPELINE_STOPPED]"
  by (simp add: set_status_def create_pipeline_def create_conversion_pipeline_def
        start_playing_def stop_playing_def set_sink_status_def set_source_status_def
        log_call_def create_input_format_def getDeviceFourcc_def set_fourcc_def
        refused_manager_def idle_manager_def accepting_source_def refusing_sink_def)

subsection \<open>Stopping\<close>

text \<open>
  C4. \<open>stop_playing\<close> returns before it reaches the join when the source (or a filter)
  refuses to stop. Evaluated on a playing manager whose worker thread runs and whose
  source refuses: the call returns false, the thread object is still joinable, and the
  log holds the notification and the refused call only, no join.
\<close>

theorem stop_playing_returns_without_join:
  "fst (stop_playing streaming_manager) = False
   \<and> m_pipeline_thread (snd (stop_playing streaming_manager)) = True
   \<and> calls (snd (stop_playing streaming_manager))
       = [NotifyAll, SourceSetStatus TCAM_PIPELINE_STOPPED]"
  by (simp add: stop_playing_def set_source_status_def log_call_def
        streaming_manager_def idle_manager_def stubborn_source_def)

lemma stop_filters_thread: "m_pipeline_thread (snd (stop_filters fs m)) = m_pipeline_thread m"
  by (induction fs arbitrary: m) (simp_all add: Let_def log_call_def)

text \<open>When \<open>stop_playing\<close> returns true, the thread has been joined.\<close>

lemma stop_playing_true_joined:
  assumes "stop_playing m = (True, m')"
  shows "\<not> m_pipeline_thread m'"
  using assms
  by (auto simp: stop_playing_def Let_def log_call_def
        split: prod.splits bool.splits if_splits)

subsection \<open>Interpretation filters\<close>

lemma interpretation_applies_iff:
  "interpretation_applies m f \<longleftrightarrow>
     (input_fourcc f = [0] \<or> fourcc (input_format m) \<in> set (input_fourcc f))"
  using single_zero [of "input_fourcc f"]
  by (auto simp: interpretation_applies_def isFilterApplicable_iff)

lemma interpretation_step_eq:
  "interpretation_step f m =
     m\<lparr>filter_pipeline :=
         (if filter_type f = FILTER_TYPE_INTERPRET
             \<and> (input_fourcc f = [0] \<or> fourcc (input_format m) \<in> set (input_fourcc f))
          then [f] else []) @ filter_pipeline m,
       calls := calls m @
         (if filter_type f = FILTER_TYPE_INTERPRET
          then [FilterSetVideoFormat (filter_name f) (input_format m) (input_format m)]
          else [])\<rparr>"
  by (simp add: interpretation_step_def interpretation_applies_iff log_call_def Let_def)

lemma interpretation_fold:
  "foldl (\<lambda>st f. interpretation_step f st) m fs =
     m\<lparr>filter_pipeline :=
         rev (filter (\<lambda>f. filter_type f = FILTER_TYPE_INTERPRET
                          \<and> (input_fourcc f = [0]
                             \<or> fourcc (input_format m) \<in> set (input_fourcc f))) fs)
         @ filter_pipeline m,
       calls := calls m @
         map (\<lambda>f. FilterSetVideoFormat (filter_name f) (input_format m) (input_format m))
           (filter (\<lambda>f. filter_type f = FILTER_TYPE_INTERPRET) fs)\<rparr>"
proof (induction fs arbitrary: m)
  case Nil
  show ?case by simp
next
  case (Cons f fs)
  have "foldl (\<lambda>st f. interpretation_step f st) m (f # fs) =
        foldl (\<lambda>st f. interpretation_step f st) (interpretation_step f m) fs"
    by simp
  also note Cons.IH [of "interpretation_step f m"]
  finally show ?case
    by (simp add: interpretation_step_eq)
qed

text \<open>
  C5, as amended. \<open>add_interpretation_filter\<close> returns true; it puts every registered
  interpretation filter whose input encodings contain the chain's input encoding, or are
  the single encoding 0, in front of the chain that was there, in the reverse of the
  registry order (each is inserted at the front in turn); it calls \<open>setVideoFormat\<close>
  with the input format as both input and output on every registered interpretation
  filter, in registry order; and it changes nothing else.
\<close>

theorem add_interpretation_filter_front:
  "add_interpretation_filter m =
     (True,
      m\<lparr>filter_pipeline :=
          rev (filter (\<lambda>f. filter_type f = FILTER_TYPE_INTERPRET
                           \<and> (input_fourcc f = [0]
                              \<or> fourcc (input_format m) \<in> set (input_fourcc f)))
                 (available_filter m))
          @ filter_pipeline m,
        calls := calls m @
          map (\<lambda>f. FilterSetVideoFormat (filter_name f) (input_format m) (input_format m))
            (filter (\<lambda>f. filter_type f = FILTER_TYPE_INTERPRET) (available_filter m))\<rparr>)"
  by (simp add: add_interpretation_filter_def interpretation_fold)

text \<open>
  C5 as stated fails: with two qualifying filters registered as autoexposure,
  whitebalance, the chain starts whitebalance, autoexposure.
\<close>

theorem add_interpretation_filter_order_counterexample:
  "map filter_name (available_filter bayer_manager) = [''autoexposure'', ''whitebalance'']
   \<and> map filter_name (filter_pipeline (snd (add_interpretation_filter bayer_manager)))
       = [''whitebalance'', ''autoexposure'']"
  by (simp add: add_interpretation_filter_def interpretation_step_def
        interpretation_applies_def isFilterApplicable_def log_call_def
        bayer_manager_def idle_manager_def autoexposure_def whitebalance_def)

text \<open>
  \<open>create_pipeline\<close> does not call \<open>add_interpretation_filter\<close>: the chain it builds
  holds conversion filters only.
\<close>

lemma conversion_step_only_conversion:
  assumes "list_all (\<lambda>f. filter_type f = FILTER_TYPE_CONVERSION) (filter_pipeline m)"
  shows "list_all (\<lambda>f. filter_type f = FILTER_TYPE_CONVERSION)
           (filter_pipeline (conversion_step dev f m))"
  using assms
  by (auto simp: conversion_step_def create_input_format_def log_call_def Let_def
        split: option.splits)

lemma conversion_fold_only_conversion:
  assumes "list_all (\<lambda>f. filter_type f = FILTER_TYPE_CONVERSION) (filter_pipeline m)"
  shows "list_all (\<lambda>f. filter_type f = FILTER_TYPE_CONVERSION)
           (filter_pipeline (foldl (\<lambda>st f. conversion_step dev f st) m fs))"
  using assms
proof (induction fs arbitrary: m)
  case Nil
  then show ?case by simp
next
  case (Cons f fs)
  from Cons.IH [OF conversion_step_only_conversion [OF Cons.prems]]
  show ?case by simp
qed

lemma create_pipeline_only_conversion:
  assumes "fst (create_pipeline m)"
  shows "list_all (\<lambda>f. filter_type f = FILTER_TYPE_CONVERSION)
           (filter_pipeline (snd (create_pipeline m)))"
proof -
  let ?m0 = "m\<lparr>filter_pipeline := []\<rparr>"
  let ?m1 = "create_input_format (fourcc (output_format ?m0)) ?m0"
  have "list_all (\<lambda>f. filter_type f = FILTER_TYPE_CONVERSION) (filter_pipeline ?m1)"
    by (simp add: create_input_format_def)
  from conversion_fold_only_conversion [OF this]
  have "list_all (\<lambda>f. filter_type f = FILTER_TYPE_CONVERSION)
          (filter_pipeline (snd (create_conversion_pipeline ?m0)))"
    by (simp add: create_conversion_pipeline_def Let_def)
  with assms show ?thesis
    by (auto simp: create_pipeline_def Let_def log_call_def
          split: option.splits prod.splits bool.splits if_splits)
qed

subsection \<open>Buffers\<close>

lemma perform_keeps:
  "status (perform a m) = status m \<and> sink (perform a m) = sink m"
  by (cases a)
    (auto simp: push_image_def run_pipeline_turn_def log_call_def Let_def split: list.splits)

lemma perform_fifo:
  assumes "sink m \<noteq> None \<or> status m \<noteq> TCAM_PIPELINE_PLAYING"
  shows "delivered (calls (perform a m)) @ m_entry_queue (perform a m) =
         delivered (calls m) @ m_entry_queue m @
           (if status m = TCAM_PIPELINE_STOPPED then [] else pushed [a])"
  using assms
  by (cases a)
    (auto simp: push_image_def run_pipeline_turn_def log_call_def Let_def delivered_append
       split: list.splits)

lemma run_actions_snoc: "run_actions (acts @ [a]) m = perform a (run_actions acts m)"
  by (simp add: run_actions_def)

lemma run_actions_keeps:
  "status (run_actions acts m) = status m \<and> sink (run_actions acts m) = sink m"
proof (induction acts rule: rev_induct)
  case Nil
  show ?case by (simp add: run_actions_def)
next
  case (snoc a acts)
  then show ?case by (simp add: run_actions_snoc perform_keeps)
qed

lemma run_actions_fifo:
  assumes "sink m \<noteq> None \<or> status m \<noteq> TCAM_PIPELINE_PLAYING"
  shows "delivered (calls (run_actions acts m)) @ m_entry_queue (run_actions acts m) =
         delivered (calls m) @ m_entry_queue m @
           (if status m = TCAM_PIPELINE_STOPPED then [] else pushed acts)"
proof (induction acts rule: rev_induct)
  case Nil
  show ?case by (simp add: run_actions_def)
next
  case (snoc a acts)
  let ?m = "run_actions acts m"
  have keep: "status ?m = status m" "sink ?m = sink m"
    using run_actions_keeps [of acts m] by simp_all
  have "sink ?m \<noteq> None \<or> status ?m \<noteq> TCAM_PIPELINE_PLAYING"
    using assms keep by simp
  from perform_fifo [OF this, of a] snoc keep
  show ?case by (simp add: run_actions_snoc pushed_append)
qed

text \<open>The sink cannot be replaced while the manager plays.\<close>

lemma setSink_while_playing:
  "status m = TCAM_PIPELINE_PLAYING \<Longrightarrow> setSink s m = (False, m)"
  by (simp add: setSink_def)

text \<open>
  C9. \<open>push_image\<close> leaves the manager unchanged exactly when the status is stopped;
  with any other status it appends the buffer to the queue and notifies the condition
  variable. A turn of the worker on a playing manager with a sink and a non-empty queue
  takes the oldest buffer, applies the property filter to it and pushes it to the sink.
  For a playing manager with a sink, after any sequence of pushes and worker turns the
  buffers pushed to the sink followed by the buffers still queued are the buffers that
  were there followed by the pushed buffers, in the order of the pushes: none is
  reordered and none is lost. (The worker is started only on a manager with a sink,
  lemma \<open>start_playing_success\<close>.)
\<close>

theorem push_image_fifo:
  "(push_image b m = m \<longleftrightarrow> status m = TCAM_PIPELINE_STOPPED)
   \<and> (status m \<noteq> TCAM_PIPELINE_STOPPED \<longrightarrow>
        push_image b m = m\<lparr>m_entry_queue := m_entry_queue m @ [b],
                           calls := calls m @ [NotifyAll]\<rparr>)
   \<and> (status m = TCAM_PIPELINE_PLAYING \<and> sink m \<noteq> None \<and> m_entry_queue m = b0 # rest \<longrightarrow>
        run_pipeline_turn m =
          (Processed, m\<lparr>m_entry_queue := rest,
                        calls := calls m @ [PropertyFilterApply b0, SinkPushImage b0]\<rparr>))
   \<and> (status m = TCAM_PIPELINE_PLAYING \<and> sink m \<noteq> None \<longrightarrow>
        delivered (calls (run_actions acts m)) @ m_entry_queue (run_actions acts m) =
          delivered (calls m) @ m_entry_queue m @ pushed acts)"
proof -
  have grows: "m\<lparr>m_entry_queue := m_entry_queue m @ [b], calls := calls m @ [NotifyAll]\<rparr> \<noteq> m"
  proof
    assume "m\<lparr>m_entry_queue := m_entry_queue m @ [b], calls := calls m @ [NotifyAll]\<rparr> = m"
    then have "m_entry_queue
                 (m\<lparr>m_entry_queue := m_entry_queue m @ [b], calls := calls m @ [NotifyAll]\<rparr>)
               = m_entry_queue m"
      by simp
    then show False by simp
  qed
  have push: "status m \<noteq> TCAM_PIPELINE_STOPPED \<Longrightarrow>
      push_image b m = m\<lparr>m_entry_queue := m_entry_queue m @ [b],
                         calls := calls m @ [NotifyAll]\<rparr>"
    by (simp add: push_image_def log_call_def)
  have drops: "push_image b m = m \<longleftrightarrow> status m = TCAM_PIPELINE_STOPPED"
    using push grows by (auto simp: push_image_def)
  have turn: "status m = TCAM_PIPELINE_PLAYING \<and> sink m \<noteq> None \<and> m_entry_queue m = b0 # rest
      \<Longrightarrow> run_pipeline_turn m =
          (Processed, m\<lparr>m_entry_queue := rest,
                        calls := calls m @ [PropertyFilterApply b0, SinkPushImage b0]\<rparr>)"
    by (auto simp: run_pipeline_turn_def log_call_def Let_def)
  have fifo: "status m = TCAM_PIPELINE_PLAYING \<and> sink m \<noteq> None \<Longrightarrow>
      delivered (calls (run_actions acts m)) @ m_entry_queue (run_actions acts m) =
        delivered (calls m) @ m_entry_queue m @ pushed acts"
    using run_actions_fifo [of m acts] by auto
  from drops push turn fifo show ?thesis by blast
qed

theorem push_image_fifo_witness:
  "status streaming_manager = TCAM_PIPELINE_PLAYING
   \<and> sink streaming_manager \<noteq> None
   \<and> m_entry_queue streaming_manager = [7, 8]
   \<and> m_entry_queue (push_image 9 streaming_manager) = [7, 8, 9]
   \<and> m_entry_queue (snd (run_pipeline_turn streaming_manager)) = [8]
   \<and> calls (snd (run_pipeline_turn streaming_manager))
       = [PropertyFilterApply 7, SinkPushImage 7]
   \<and> delivered (calls (run_actions [Turn, Push 9, Turn, Turn, Push 10] streaming_manager))
       @ m_entry_queue (run_actions [Turn, Push 9, Turn, Turn, Push 10] streaming_manager)
       = [7, 8, 9, 10]"
proof -
  have s: "status streaming_manager = TCAM_PIPELINE_PLAYING"
    "sink streaming_manager \<noteq> None" "m_entry_queue streaming_manager = [7, 8]"
    "calls streaming_manager = []"
    by (simp_all add: streaming_manager_def idle_manager_def)
  from push_image_fifo [of 9 streaming_manager 7 "[8]"
      "[Turn, Push 9, Turn, Turn, Push 10]"] s
  show ?thesis by simp
qed

section \<open>Properties of the negotiation\<close>

subsection \<open>The preferred format\<close>

text \<open>
  C2. The loop of \<open>find_preferred_format\<close> stores the 8-bit mono format \<open>FOURCC_Y800\<close>
  under key 40 and the 16-bit mono format \<open>FOURCC_Y16\<close> under key 50, so of the two it
  returns the 8-bit one, in whichever order they are listed. The hypotheses say that
  the two constants are not also constants of an earlier class of the chain of tests.
\<close>

theorem find_preferred_format_mono8_before_mono16:
  assumes "preferred_rank F (F ''Y800'') = Some 40"
    and "preferred_rank F (F ''Y16'') = Some 50"
  shows "find_preferred_format F [F ''Y16'', F ''Y800''] = F ''Y800''
         \<and> find_preferred_format F [F ''Y800'', F ''Y16''] = F ''Y800''"
  using assms by (simp add: find_preferred_format_def store_rank_def)

theorem find_preferred_format_mono8_before_mono16_witness:
  "preferred_rank sample_fourcc (sample_fourcc ''Y800'') = Some 40
   \<and> preferred_rank sample_fourcc (sample_fourcc ''Y16'') = Some 50
   \<and> find_preferred_format sample_fourcc [sample_fourcc ''Y16'', sample_fourcc ''Y800'']
       = sample_fourcc ''Y800''
   \<and> find_preferred_format sample_fourcc [sample_fourcc ''Y800'', sample_fourcc ''Y16'']
       = sample_fourcc ''Y800''"
proof -
  have h1: "preferred_rank sample_fourcc (sample_fourcc ''Y800'') = Some 40"
    by (simp add: preferred_rank_def sample_fourcc_def tcam_gst_is_fourcc_bayer_def
          tcam_gst_is_fourcc_rgb_def tcam_gst_is_fourcc_yuv_def GST_MAKE_FOURCC_def)
  have h2: "preferred_rank sample_fourcc (sample_fourcc ''Y16'') = Some 50"
    by (simp add: preferred_rank_def sample_fourcc_def tcam_gst_is_fourcc_bayer_def
          tcam_gst_is_fourcc_rgb_def tcam_gst_is_fourcc_yuv_def GST_MAKE_FOURCC_def)
  from find_preferred_format_mono8_before_mono16 [OF h1 h2] h1 h2 show ?thesis by simp
qed

text \<open>The rest of the table: a format without a rank does not change the result, and a
  format of a lower rank wins over one of a higher rank wherever it stands.\<close>

lemma find_preferred_format_two:
  assumes "preferred_rank F a = Some i" and "preferred_rank F b = Some j" and "i < j"
  shows "find_preferred_format F [a, b] = a \<and> find_preferred_format F [b, a] = a"
  using assms by (simp add: find_preferred_format_def store_rank_def)

lemma find_preferred_format_unranked:
  assumes "preferred_rank F a = Some i" and "preferred_rank F u = None"
  shows "find_preferred_format F [a, u] = a \<and> find_preferred_format F [u, a] = a"
  using assms by (simp add: find_preferred_format_def store_rank_def)

lemma map_begin_None: "map_begin m = None \<longleftrightarrow> m = []"
  by (induction m) (auto split: option.splits)

lemma map_begin_least:
  assumes "map_begin m = Some e"
  shows "e \<in> set m \<and> (\<forall>e' \<in> set m. fst e \<le> fst e')"
  using assms
proof (induction m arbitrary: e)
  case Nil
  then show ?case by simp
next
  case (Cons x m)
  show ?case
  proof (cases "map_begin m")
    case None
    with Cons.prems have "e = x" "m = []" by (simp_all add: map_begin_None)
    then show ?thesis by simp
  next
    case (Some e')
    from Cons.IH [OF Some] have e': "e' \<in> set m" "\<forall>y \<in> set m. fst e' \<le> fst y" by simp_all
    from Cons.prems Some have "e = (if fst x \<le> fst e' then x else e')"
      by (simp split: if_splits)
    with e' show ?thesis by (auto split: if_splits)
  qed
qed

lemma store_rank_fold:
  assumes "distinct (map fst m)"
    and "\<forall>k v. map_of m k = Some v \<longrightarrow> preferred_rank F v = Some k"
  shows "distinct (map fst (foldl (store_rank F) m vec))
    \<and> (\<forall>k v. map_of (foldl (store_rank F) m vec) k = Some v \<longrightarrow>
           preferred_rank F v = Some k \<and> (v \<in> set vec \<or> map_of m k = Some v))
    \<and> (\<forall>cc \<in> set vec. \<forall>j. preferred_rank F cc = Some j \<longrightarrow>
           map_of (foldl (store_rank F) m vec) j \<noteq> None)
    \<and> (\<forall>j. map_of m j \<noteq> None \<longrightarrow> map_of (foldl (store_rank F) m vec) j \<noteq> None)"
  using assms
proof (induction vec arbitrary: m)
  case Nil
  then show ?case by simp
next
  case (Cons cc vec)
  let ?m = "store_rank F m cc"
  have d: "distinct (map fst ?m)"
    using Cons.prems(1) by (simp add: store_rank_def distinct_update split: option.splits)
  have r: "\<forall>k v. map_of ?m k = Some v \<longrightarrow> preferred_rank F v = Some k"
    using Cons.prems(2) by (auto simp: store_rank_def update_conv' split: option.splits if_splits)
  have stays: "\<forall>j. map_of m j \<noteq> None \<longrightarrow> map_of ?m j \<noteq> None"
    by (auto simp: store_rank_def update_conv' split: option.splits)
  have stored: "\<forall>j. preferred_rank F cc = Some j \<longrightarrow> map_of ?m j \<noteq> None"
    by (auto simp: store_rank_def update_conv' split: option.splits)
  have origin: "\<forall>k v. map_of ?m k = Some v \<longrightarrow> v = cc \<or> map_of m k = Some v"
    by (auto simp: store_rank_def update_conv' split: option.splits if_splits)
  let ?M = "foldl (store_rank F) ?m vec"
  from Cons.IH [OF d r]
  have ih1: "distinct (map fst ?M)"
    and ih2: "\<forall>k v. map_of ?M k = Some v \<longrightarrow>
                preferred_rank F v = Some k \<and> (v \<in> set vec \<or> map_of ?m k = Some v)"
    and ih3: "\<forall>c \<in> set vec. \<forall>j. preferred_rank F c = Some j \<longrightarrow> map_of ?M j \<noteq> None"
    and ih4: "\<forall>j. map_of ?m j \<noteq> None \<longrightarrow> map_of ?M j \<noteq> None"
    by blast+
  have a: "\<forall>k v. map_of ?M k = Some v \<longrightarrow>
             preferred_rank F v = Some k \<and> (v \<in> set (cc # vec) \<or> map_of m k = Some v)"
    using ih2 origin by (metis list.set_intros(1) list.set_intros(2))
  have b: "\<forall>c \<in> set (cc # vec). \<forall>j. preferred_rank F c = Some j \<longrightarrow> map_of ?M j \<noteq> None"
    using ih3 ih4 stored by (metis set_ConsD)
  have c: "\<forall>j. map_of m j \<noteq> None \<longrightarrow> map_of ?M j \<noteq> None"
    using ih4 stays by blast
  have unfold: "foldl (store_rank F) m (cc # vec) = ?M" by simp
  show ?case
    unfolding unfold using ih1 a b c by (intro conjI)
qed

lemma store_rank_from_empty:
  "distinct (map fst (foldl (store_rank F) [] vec))
    \<and> (\<forall>k v. map_of (foldl (store_rank F) [] vec) k = Some v \<longrightarrow>
           preferred_rank F v = Some k \<and> v \<in> set vec)
    \<and> (\<forall>cc \<in> set vec. \<forall>j. preferred_rank F cc = Some j \<longrightarrow>
           map_of (foldl (store_rank F) [] vec) j \<noteq> None)"
proof -
  have "distinct (map fst ([] :: (int \<times> 32 word) list))" by simp
  moreover have "\<forall>k v. map_of ([] :: (int \<times> 32 word) list) k = Some v \<longrightarrow> preferred_rank F v = Some k"
    by simp
  ultimately have inv: "distinct (map fst (foldl (store_rank F) [] vec))
    \<and> (\<forall>k v. map_of (foldl (store_rank F) [] vec) k = Some v \<longrightarrow>
           preferred_rank F v = Some k \<and> (v \<in> set vec \<or> map_of [] k = Some v))
    \<and> (\<forall>cc \<in> set vec. \<forall>j. preferred_rank F cc = Some j \<longrightarrow>
           map_of (foldl (store_rank F) [] vec) j \<noteq> None)
    \<and> (\<forall>j. map_of ([] :: (int \<times> 32 word) list) j \<noteq> None \<longrightarrow> map_of (foldl (store_rank F) [] vec) j \<noteq> None)"
    by (rule store_rank_fold)
  have e: "map_of ([] :: (int \<times> 32 word) list) k = None" for k by simp
  from inv show ?thesis unfolding e by blast
qed

text \<open>
  In general: when some listed format has a rank, the result is a listed format whose rank
  is not above that of any listed format; when none has a rank the result is zero.
\<close>

lemma find_preferred_format_least:
  assumes "cc \<in> set vec" and "preferred_rank F cc = Some j"
  shows "find_preferred_format F vec \<in> set vec
         \<and> (\<exists>k\<le>j. preferred_rank F (find_preferred_format F vec) = Some k)"
proof -
  let ?m = "foldl (store_rank F) [] vec"
  from store_rank_from_empty [of F vec]
  have d: "distinct (map fst ?m)"
    and r: "\<forall>k v. map_of ?m k = Some v \<longrightarrow> preferred_rank F v = Some k \<and> v \<in> set vec"
    and c: "\<forall>cc \<in> set vec. \<forall>j. preferred_rank F cc = Some j \<longrightarrow> map_of ?m j \<noteq> None"
    by blast+
  from c assms obtain v where v: "map_of ?m j = Some v" by blast
  then have jv: "(j, v) \<in> set ?m" by (rule map_of_SomeD)
  then have "?m \<noteq> []" by (cases ?m) simp_all
  then obtain e where e: "map_begin ?m = Some e"
    using map_begin_None [of ?m] by (cases "map_begin ?m") simp_all
  from map_begin_least [OF e] jv have em: "e \<in> set ?m" and le: "fst e \<le> j"
    by (blast, fastforce)
  from em have "(fst e, snd e) \<in> set ?m" by simp
  with d have "map_of ?m (fst e) = Some (snd e)" by (rule map_of_is_SomeI)
  with r have re: "preferred_rank F (snd e) = Some (fst e)" "snd e \<in> set vec" by blast+
  from assms(1) have "vec \<noteq> []" by (cases vec) simp_all
  with e have "find_preferred_format F vec = snd e"
    by (simp add: find_preferred_format_def)
  with re le show ?thesis by simp
qed

lemma find_preferred_format_none_ranked:
  assumes "\<forall>cc \<in> set vec. preferred_rank F cc = None"
  shows "find_preferred_format F vec = 0"
proof -
  have "foldl (store_rank F) m vec = m" for m
    using assms by (induction vec arbitrary: m) (simp_all add: store_rank_def)
  then show ?thesis by (simp add: find_preferred_format_def)
qed

subsection \<open>The largest caps\<close>

text \<open>
  C6. The loop of \<open>tcam_gst_find_largest_caps\<close> moves \<open>largest_index\<close> to a structure
  whose height is not smaller than the largest height seen, whatever its width.
  Evaluated on a camera that offers 8-bit Bayer at 1920x1080 (15 and 30 frames per
  second) and at 1280x1080 (15, 30 and 60): the result is 1280x1080 at 60 frames per
  second, not the widest entry.
\<close>

theorem tcam_gst_find_largest_caps_takes_narrower:
  "tcam_gst_find_largest_caps sample_environment (Some two_sizes_caps) =
     Returns (Some (GstCaps
       [\<lparr>structure_name = ''video/x-bayer'',
         structure_fields =
           [(''framerate'', GST_FRACTION 60 1), (''width'', G_INT 1280),
            (''height'', G_INT 1080), (''format'', G_STRING ''rggb'')]\<rparr>]))"
  by code_simp

subsection \<open>Finding the input caps\<close>

text \<open>
  With the two toggles off, a registered \<open>bayer2rgb\<close> that can produce some of the wanted
  caps and consume some of the available caps decides the result: the function returns
  from that block, and the intersection of the available and the wanted caps is not
  looked at.
\<close>

lemma find_input_caps_bayer2rgb_taken:
  assumes "\<not> use_dutils toggles" and "\<not> use_by1xtransform toggles"
    and "\<not> gst_caps_is_empty wanted"
    and "gst_element_factory_find env ''bayer2rgb'' = Some debayer"
    and "gst_element_factory_can_src_any_caps debayer wanted"
    and "gst_element_factory_can_sink_any_caps debayer available"
  shows "find_input_caps env (Some available) (Some wanted) toggles =
           Returns (reset_input_caps_modules\<lparr>bayer2rgb := True\<rparr>,
                    Some (gst_caps_intersect env available
                            (gst_caps_change_name ''video/x-bayer'' wanted)))"
  using assms by (simp add: find_input_caps_def bayer2rgb_block_def)

text \<open>
  C1. \<open>find_input_caps\<close> tries the bridging elements before the plain intersection.
  Evaluated on a camera that offers the same frame as 8-bit Bayer and as BGRx, with BGRx
  wanted and bayer2rgb, videoconvert and jpegdec registered: the intersection of the
  available and the wanted caps is the BGRx structure, yet the function returns the
  Bayer structure and asks for the module bayer2rgb.
\<close>

theorem find_input_caps_bridges_before_intersecting:
  "gst_caps_intersect sample_environment bayer_and_bgrx_caps bgrx_wanted_caps =
     GstCaps [fixed_structure ''video/x-raw'' ''BGRx'' 640 480 (GST_FRACTION 30 1)]
   \<and> find_input_caps sample_environment (Some bayer_and_bgrx_caps) (Some bgrx_wanted_caps)
       no_toggles =
     Returns (reset_input_caps_modules\<lparr>bayer2rgb := True\<rparr>,
              Some (GstCaps
                [fixed_structure ''video/x-bayer'' ''rggb'' 640 480 (GST_FRACTION 30 1)]))"
  by code_simp


subsection \<open>When nothing bridges\<close>









end
